theory Spec2Isabelle
  imports Complex_Main
begin

section \<open>Double-precision numbers\<close>

text \<open>
  The prices are Python floats and SQLite \<^verbatim>\<open>REAL\<close> values: IEEE 754 binary64 numbers. A
  finite double is kept as the rational number it stands for (a negative zero is not told
  from zero); the two infinities are values of their own. Not-a-number is no value of a
  column: SQLite stores it, and returns it from arithmetic, as \<^verbatim>\<open>NULL\<close>.
\<close>

datatype double = Finite rat | PlusInf | MinusInf

text \<open>The number of binary digits of a natural number.\<close>

fun bit_length :: "nat \<Rightarrow> nat" where
  "bit_length n = (if n = 0 then 0 else Suc (bit_length (n div 2)))"

declare bit_length.simps [simp del]

text \<open>The binary exponent \<open>e\<close> of a number \<open>x\<close> other than 0: \<open>2 ^ e \<le> \<bar>x\<bar> < 2 ^ (e + 1)\<close>.\<close>

definition exponent_of :: "rat \<Rightarrow> int" where
  "exponent_of x =
     (if 1 \<le> \<bar>x\<bar> then int (bit_length (nat \<lfloor>\<bar>x\<bar>\<rfloor>)) - 1
      else - int (bit_length (nat (\<lceil>1 / \<bar>x\<bar>\<rceil> - 1))))"

definition pow2 :: "int \<Rightarrow> rat" where
  "pow2 k = (if 0 \<le> k then 2 ^ nat k else 1 / 2 ^ nat (- k))"

text \<open>Rounding to the nearest integer, a tie going to the even one.\<close>

definition round_half_even :: "rat \<Rightarrow> int" where
  "round_half_even y =
     (let f = \<lfloor>y\<rfloor>; r = y - of_int f
      in if r < 1 / 2 then f else if 1 / 2 < r then f + 1 else if even f then f else f + 1)"

text \<open>
  The double nearest to a number, as Python reads a decimal literal and as every
  arithmetic operation rounds its exact result: 53 significant binary digits, exponents
  from \<open>-1022\<close> (below that the spacing stays \<open>2 ^ -1074\<close>), a result of magnitude
  \<open>2 ^ 1024\<close> or more becoming an infinity.
\<close>

definition round_to_double :: "rat \<Rightarrow> double" where
  "round_to_double x =
     (if x = 0 then Finite 0
      else let e = max (exponent_of x) (- 1022);
               q = pow2 (e - 52);
               r = of_int (round_half_even (x / q)) * q
           in if r = 0 \<or> exponent_of r < 1024 then Finite r
              else if 0 < r then PlusInf
              else MinusInf)"

text \<open>Subtraction: \<open>None\<close> is not-a-number, the difference of two equal infinities.\<close>

fun double_sub :: "double \<Rightarrow> double \<Rightarrow> double option" where
  "double_sub (Finite a) (Finite b) = Some (round_to_double (a - b))"
| "double_sub (Finite a) PlusInf = Some MinusInf"
| "double_sub (Finite a) MinusInf = Some PlusInf"
| "double_sub PlusInf (Finite b) = Some PlusInf"
| "double_sub MinusInf (Finite b) = Some MinusInf"
| "double_sub PlusInf MinusInf = Some PlusInf"
| "double_sub MinusInf PlusInf = Some MinusInf"
| "double_sub PlusInf PlusInf = None"
| "double_sub MinusInf MinusInf = None"

fun double_abs :: "double \<Rightarrow> double" where
  "double_abs (Finite a) = Finite \<bar>a\<bar>"
| "double_abs PlusInf = PlusInf"
| "double_abs MinusInf = PlusInf"

fun double_less :: "double \<Rightarrow> double \<Rightarrow> bool" where
  "double_less (Finite a) (Finite b) = (a < b)"
| "double_less (Finite a) PlusInf = True"
| "double_less (Finite a) MinusInf = False"
| "double_less PlusInf y = False"
| "double_less MinusInf (Finite b) = True"
| "double_less MinusInf PlusInf = True"
| "double_less MinusInf MinusInf = False"

section \<open>Python values\<close>

text \<open>
  The validator of \<^verbatim>\<open>data_validation.py\<close> returns nested Python dictionaries whose
  leaves are strings, booleans and lists. The values it handles are modelled by one
  datatype. A dictionary is an association list in the order of the dict literal.

  Every issue the validator reports is the result of an f-string with one replacement
  field, such as \<^verbatim>\<open>f"Invalid email format: {invalid_emails}"\<close>. Such a string is kept as
  \<open>PFStr prefix value suffix\<close>: the literal text before the field, the interpolated
  value, the literal text after it. It is a Python \<^verbatim>\<open>str\<close> like \<open>PStr\<close>; the characters
  Python renders for the interpolated value are not computed.
\<close>

datatype pyval =
    PNone
  | PBool bool
  | PInt int
  | PFloat double
  | PStr string
  | PFStr string pyval string
  | PTuple "pyval list"
  | PList "pyval list"
  | PDict "(string \<times> pyval) list"

text \<open>\<^verbatim>\<open>d[k]\<close>: \<open>None\<close> stands for the \<^verbatim>\<open>KeyError\<close> (or \<^verbatim>\<open>TypeError\<close>) Python raises.\<close>

fun item :: "pyval \<Rightarrow> string \<Rightarrow> pyval option" where
  "item (PDict kvs) k = map_of kvs k"
| "item _ k = None"

text \<open>Truth value of a Python object, as \<^verbatim>\<open>if\<close> and \<^verbatim>\<open>all\<close> read it.\<close>

fun truthy :: "pyval \<Rightarrow> bool" where
  "truthy PNone = False"
| "truthy (PBool b) = b"
| "truthy (PInt i) = (i \<noteq> 0)"
| "truthy (PFloat r) = (r \<noteq> Finite 0)"
| "truthy (PStr s) = (s \<noteq> [])"
| "truthy (PFStr pre v post) =
     (pre \<noteq> [] \<or> post \<noteq> [] \<or>
      (case v of PStr s \<Rightarrow> s \<noteq> [] | PFStr a b c \<Rightarrow> truthy v | _ \<Rightarrow> True))"
| "truthy (PTuple xs) = (xs \<noteq> [])"
| "truthy (PList xs) = (xs \<noteq> [])"
| "truthy (PDict kvs) = (kvs \<noteq> [])"

section \<open>The database snapshot\<close>

text \<open>
  The validator reads three tables through SQL. Only the columns its queries mention are
  kept. Every column is nullable in the model (\<open>None\<close> is SQL \<^verbatim>\<open>NULL\<close>): the validator
  itself tests required columns for \<^verbatim>\<open>NULL\<close> and keys for duplicates, so it does not rely
  on constraints of the schema. A column holds values of its declared type: the ids and
  quantities are integers (unbounded here; SQLite's are 64 bits wide, and a sum that leaves
  that range becomes a double that decides the stock comparison the same way), the names
  and emails are text, the prices are doubles.
\<close>

record customers_row =
  c_customer_id :: "int option"
  c_first_name :: "string option"
  c_last_name :: "string option"
  c_email :: "string option"

record products_row =
  p_product_id :: "int option"
  p_product_name :: "string option"
  p_price :: "double option"
  p_stock_quantity :: "int option"

record orders_row =
  o_order_id :: "int option"
  o_customer_id :: "int option"
  o_product_id :: "int option"
  o_quantity :: "int option"
  o_unit_price :: "double option"

record database =
  customers :: "customers_row list"
  products :: "products_row list"
  orders :: "orders_row list"

text \<open>A fetched cell as the Python value \<^verbatim>\<open>sqlite3\<close> hands over.\<close>

definition py_int :: "int option \<Rightarrow> pyval" where
  "py_int x = (case x of None \<Rightarrow> PNone | Some i \<Rightarrow> PInt i)"

definition py_float :: "double option \<Rightarrow> pyval" where
  "py_float x = (case x of None \<Rightarrow> PNone | Some r \<Rightarrow> PFloat r)"

definition py_str :: "string option \<Rightarrow> pyval" where
  "py_str x = (case x of None \<Rightarrow> PNone | Some s \<Rightarrow> PStr s)"

section \<open>SQL expressions\<close>

text \<open>
  SQL is three-valued: an operator with a \<^verbatim>\<open>NULL\<close> operand yields \<^verbatim>\<open>NULL\<close>, and
  \<^verbatim>\<open>WHERE\<close>, \<^verbatim>\<open>ON\<close> and \<^verbatim>\<open>HAVING\<close> keep a row only when the condition is true.
\<close>

definition sql_true :: "bool option \<Rightarrow> bool" where
  "sql_true c = (c = Some True)"

definition sql_not :: "bool option \<Rightarrow> bool option" where
  "sql_not c = map_option Not c"

definition sql_eq :: "'a option \<Rightarrow> 'a option \<Rightarrow> bool option" where
  "sql_eq a b = (case (a, b) of (Some x, Some y) \<Rightarrow> Some (x = y) | _ \<Rightarrow> None)"

definition sql_lt :: "'a::linorder option \<Rightarrow> 'a option \<Rightarrow> bool option" where
  "sql_lt a b = (case (a, b) of (Some x, Some y) \<Rightarrow> Some (x < y) | _ \<Rightarrow> None)"

definition sql_le :: "'a::linorder option \<Rightarrow> 'a option \<Rightarrow> bool option" where
  "sql_le a b = (case (a, b) of (Some x, Some y) \<Rightarrow> Some (x \<le> y) | _ \<Rightarrow> None)"

definition sql_gt :: "'a::linorder option \<Rightarrow> 'a option \<Rightarrow> bool option" where
  "sql_gt a b = (case (a, b) of (Some x, Some y) \<Rightarrow> Some (x > y) | _ \<Rightarrow> None)"

definition sql_add :: "'a::plus option \<Rightarrow> 'a option \<Rightarrow> 'a option" where
  "sql_add a b = (case (a, b) of (Some x, Some y) \<Rightarrow> Some (x + y) | _ \<Rightarrow> None)"

text \<open>The same on \<^verbatim>\<open>REAL\<close> values, computed in double precision.\<close>

definition sql_real_lt :: "double option \<Rightarrow> double option \<Rightarrow> bool option" where
  "sql_real_lt a b = (case (a, b) of (Some x, Some y) \<Rightarrow> Some (double_less x y) | _ \<Rightarrow> None)"

definition sql_real_gt :: "double option \<Rightarrow> double option \<Rightarrow> bool option" where
  "sql_real_gt a b = (case (a, b) of (Some x, Some y) \<Rightarrow> Some (double_less y x) | _ \<Rightarrow> None)"

definition sql_real_sub :: "double option \<Rightarrow> double option \<Rightarrow> double option" where
  "sql_real_sub a b = (case (a, b) of (Some x, Some y) \<Rightarrow> double_sub x y | _ \<Rightarrow> None)"

definition sql_real_abs :: "double option \<Rightarrow> double option" where
  "sql_real_abs a = map_option double_abs a"

text \<open>
  \<^verbatim>\<open>LIKE\<close> as SQLite matches it: \<^verbatim>\<open>%\<close> stands for any run of characters, \<^verbatim>\<open>_\<close> for one
  character, and any other character of the pattern for itself, upper and lower case
  ASCII letters being the same. Text is a list of 8-bit characters. SQLite reads both
  operands as C strings: what follows the first NUL character of a text takes no part in
  the match.
\<close>

definition ascii_lower :: "char \<Rightarrow> char" where
  "ascii_lower c =
     (case map_of (zip ''ABCDEFGHIJKLMNOPQRSTUVWXYZ'' ''abcdefghijklmnopqrstuvwxyz'') c of
        Some l \<Rightarrow> l
      | None \<Rightarrow> c)"

fun sqlite_like :: "string \<Rightarrow> string \<Rightarrow> bool" where
  "sqlite_like [] s = (s = [])"
| "sqlite_like (p # ps) [] = (p = CHR ''%'' \<and> sqlite_like ps [])"
| "sqlite_like (p # ps) (c # cs) =
     (if p = CHR ''%'' then sqlite_like ps (c # cs) \<or> sqlite_like (p # ps) cs
      else if p = CHR ''_'' then sqlite_like ps cs
      else ascii_lower p = ascii_lower c \<and> sqlite_like ps cs)"

definition c_str :: "string \<Rightarrow> string" where
  "c_str s = takeWhile (\<lambda>c. c \<noteq> CHR 0x00) s"

text \<open>\<^verbatim>\<open>value LIKE pattern\<close>.\<close>

definition sql_like :: "string option \<Rightarrow> string \<Rightarrow> bool option" where
  "sql_like v pat = map_option (\<lambda>s. sqlite_like (c_str pat) (c_str s)) v"

text \<open>
  \<^verbatim>\<open>SELECT key, COUNT(*) FROM t GROUP BY key\<close>: one row per distinct key, \<^verbatim>\<open>NULL\<close> keys
  forming one group. SQL leaves the order of the groups open.
\<close>

definition group_by_count :: "('r \<Rightarrow> 'k) \<Rightarrow> 'r list \<Rightarrow> ('k \<times> nat) list" where
  "group_by_count key rows =
     map (\<lambda>k. (k, length (filter (\<lambda>r. key r = k) rows))) (remdups (map key rows))"

text \<open>
  \<^verbatim>\<open>a JOIN b ON cond\<close> pairs every row of \<open>a\<close> with the rows of \<open>b\<close> the condition accepts;
  \<^verbatim>\<open>a LEFT JOIN b ON cond\<close> also keeps a row of \<open>a\<close> without a partner, all columns of
  \<open>b\<close> being \<^verbatim>\<open>NULL\<close> there (\<open>None\<close> for the whole row of \<open>b\<close>).
\<close>

definition inner_join :: "'a list \<Rightarrow> 'b list \<Rightarrow> ('a \<Rightarrow> 'b \<Rightarrow> bool option) \<Rightarrow> ('a \<times> 'b) list" where
  "inner_join xs ys cond =
     concat (map (\<lambda>x. map (Pair x) (filter (\<lambda>y. sql_true (cond x y)) ys)) xs)"

definition left_join :: "'a list \<Rightarrow> 'b list \<Rightarrow> ('a \<Rightarrow> 'b \<Rightarrow> bool option) \<Rightarrow> ('a \<times> 'b option) list" where
  "left_join xs ys cond =
     concat (map (\<lambda>x. case filter (\<lambda>y. sql_true (cond x y)) ys of
                         [] \<Rightarrow> [(x, None)]
                       | m # ms \<Rightarrow> map (\<lambda>y. (x, Some y)) (m # ms)) xs)"

section \<open>validate\_customers\<close>

definition customers_null_fields :: "database \<Rightarrow> pyval list" where
  "customers_null_fields db =
     map (\<lambda>c. PTuple [py_int (c_customer_id c), py_str (c_first_name c),
                       py_str (c_last_name c), py_str (c_email c)])
       (filter (\<lambda>c. c_first_name c = None \<or> c_last_name c = None \<or> c_email c = None)
          (customers db))"

definition duplicate_emails :: "database \<Rightarrow> pyval list" where
  "duplicate_emails db =
     map (\<lambda>(e, n). PTuple [py_str e, PInt (int n)])
       (filter (\<lambda>(e, n). n > 1) (group_by_count c_email (customers db)))"

definition invalid_emails :: "database \<Rightarrow> pyval list" where
  "invalid_emails db =
     map (\<lambda>c. PTuple [py_int (c_customer_id c), py_str (c_email c)])
       (filter (\<lambda>c. sql_true (sql_not (sql_like (c_email c) ''%@%.%''))) (customers db))"

definition customers_issues :: "database \<Rightarrow> pyval list" where
  "customers_issues db =
     (if customers_null_fields db \<noteq> []
      then [PFStr ''Customers with NULL required fields: '' (PList (customers_null_fields db)) '''']
      else []) @
     (if duplicate_emails db \<noteq> []
      then [PFStr ''Duplicate email addresses: '' (PList (duplicate_emails db)) '''']
      else []) @
     (if invalid_emails db \<noteq> []
      then [PFStr ''Invalid email format: '' (PList (invalid_emails db)) '''']
      else [])"

definition validate_customers :: "database \<Rightarrow> pyval" where
  "validate_customers db =
     PDict [(''table'', PStr ''customers''),
            (''valid'', PBool (length (customers_issues db) = 0)),
            (''issues'', PList (customers_issues db))]"

section \<open>validate\_products\<close>

definition products_null_fields :: "database \<Rightarrow> pyval list" where
  "products_null_fields db =
     map (\<lambda>p. PTuple [py_int (p_product_id p), py_str (p_product_name p), py_float (p_price p)])
       (filter (\<lambda>p. p_product_name p = None \<or> p_price p = None) (products db))"

definition negative_prices :: "database \<Rightarrow> pyval list" where
  "negative_prices db =
     map (\<lambda>p. PTuple [py_int (p_product_id p), py_str (p_product_name p), py_float (p_price p)])
       (filter (\<lambda>p. sql_true (sql_real_lt (p_price p) (Some (Finite 0)))) (products db))"

definition negative_stock :: "database \<Rightarrow> pyval list" where
  "negative_stock db =
     map (\<lambda>p. PTuple [py_int (p_product_id p), py_str (p_product_name p),
                       py_int (p_stock_quantity p)])
       (filter (\<lambda>p. sql_true (sql_lt (p_stock_quantity p) (Some 0))) (products db))"

definition duplicate_ids :: "database \<Rightarrow> pyval list" where
  "duplicate_ids db =
     map (\<lambda>(k, n). PTuple [py_int k, PInt (int n)])
       (filter (\<lambda>(k, n). n > 1) (group_by_count p_product_id (products db)))"

definition products_issues :: "database \<Rightarrow> pyval list" where
  "products_issues db =
     (if products_null_fields db \<noteq> []
      then [PFStr ''Products with NULL required fields: '' (PList (products_null_fields db)) '''']
      else []) @
     (if negative_prices db \<noteq> []
      then [PFStr ''Products with negative prices: '' (PList (negative_prices db)) '''']
      else []) @
     (if negative_stock db \<noteq> []
      then [PFStr ''Products with negative stock: '' (PList (negative_stock db)) '''']
      else []) @
     (if duplicate_ids db \<noteq> []
      then [PFStr ''Duplicate product IDs: '' (PList (duplicate_ids db)) '''']
      else [])"

definition validate_products :: "database \<Rightarrow> pyval" where
  "validate_products db =
     PDict [(''table'', PStr ''products''),
            (''valid'', PBool (length (products_issues db) = 0)),
            (''issues'', PList (products_issues db))]"

section \<open>validate\_orders\<close>

definition orders_null_fields :: "database \<Rightarrow> pyval list" where
  "orders_null_fields db =
     map (\<lambda>ord. PTuple [py_int (o_order_id ord), py_int (o_customer_id ord), py_int (o_product_id ord),
                       py_int (o_quantity ord), py_float (o_unit_price ord)])
       (filter (\<lambda>ord. o_customer_id ord = None \<or> o_product_id ord = None \<or>
                     o_quantity ord = None \<or> o_unit_price ord = None)
          (orders db))"

definition invalid_quantities :: "database \<Rightarrow> pyval list" where
  "invalid_quantities db =
     map (\<lambda>ord. PTuple [py_int (o_order_id ord), py_int (o_quantity ord)])
       (filter (\<lambda>ord. sql_true (sql_le (o_quantity ord) (Some 0))) (orders db))"

definition orders_negative_prices :: "database \<Rightarrow> pyval list" where
  "orders_negative_prices db =
     map (\<lambda>ord. PTuple [py_int (o_order_id ord), py_float (o_unit_price ord)])
       (filter (\<lambda>ord. sql_true (sql_real_lt (o_unit_price ord) (Some (Finite 0)))) (orders db))"

definition orders_issues :: "database \<Rightarrow> pyval list" where
  "orders_issues db =
     (if orders_null_fields db \<noteq> []
      then [PFStr ''Orders with NULL required fields: '' (PList (orders_null_fields db)) '''']
      else []) @
     (if invalid_quantities db \<noteq> []
      then [PFStr ''Orders with invalid quantities: '' (PList (invalid_quantities db)) '''']
      else []) @
     (if orders_negative_prices db \<noteq> []
      then [PFStr ''Orders with negative prices: '' (PList (orders_negative_prices db)) '''']
      else [])"

definition validate_orders :: "database \<Rightarrow> pyval" where
  "validate_orders db =
     PDict [(''table'', PStr ''orders''),
            (''valid'', PBool (length (orders_issues db) = 0)),
            (''issues'', PList (orders_issues db))]"

section \<open>validate\_foreign\_keys\<close>

definition orphaned_customers :: "database \<Rightarrow> pyval list" where
  "orphaned_customers db =
     map (\<lambda>(ord, c). PTuple [py_int (o_order_id ord), py_int (o_customer_id ord)])
       (filter (\<lambda>(ord, c). Option.bind c c_customer_id = None)
          (left_join (orders db) (customers db)
             (\<lambda>ord c. sql_eq (o_customer_id ord) (c_customer_id c))))"

definition orphaned_products :: "database \<Rightarrow> pyval list" where
  "orphaned_products db =
     map (\<lambda>(ord, p). PTuple [py_int (o_order_id ord), py_int (o_product_id ord)])
       (filter (\<lambda>(ord, p). Option.bind p p_product_id = None)
          (left_join (orders db) (products db)
             (\<lambda>ord p. sql_eq (o_product_id ord) (p_product_id p))))"

definition foreign_keys_issues :: "database \<Rightarrow> pyval list" where
  "foreign_keys_issues db =
     (if orphaned_customers db \<noteq> []
      then [PFStr ''Orders with invalid customer_id: '' (PList (orphaned_customers db)) '''']
      else []) @
     (if orphaned_products db \<noteq> []
      then [PFStr ''Orders with invalid product_id: '' (PList (orphaned_products db)) '''']
      else [])"

definition validate_foreign_keys :: "database \<Rightarrow> pyval" where
  "validate_foreign_keys db =
     PDict [(''constraint'', PStr ''foreign_keys''),
            (''valid'', PBool (length (foreign_keys_issues db) = 0)),
            (''issues'', PList (foreign_keys_issues db))]"

section \<open>validate\_data\_consistency\<close>

text \<open>The rows of the two joins, before the projection that \<^verbatim>\<open>SELECT\<close> applies.\<close>

definition price_mismatch_pairs :: "database \<Rightarrow> (orders_row \<times> products_row) list" where
  "price_mismatch_pairs db =
     filter (\<lambda>(ord, p). sql_true (sql_real_gt
                         (sql_real_abs (sql_real_sub (o_unit_price ord) (p_price p)))
                         (Some (round_to_double 0.01))))
       (inner_join (orders db) (products db)
          (\<lambda>ord p. sql_eq (o_product_id ord) (p_product_id p)))"

definition price_mismatches :: "database \<Rightarrow> pyval list" where
  "price_mismatches db =
     map (\<lambda>(ord, p). PTuple [py_int (o_order_id ord), py_int (o_product_id ord),
                            py_float (o_unit_price ord), py_float (p_price p)])
       (price_mismatch_pairs db)"

definition stock_issue_pairs :: "database \<Rightarrow> (orders_row \<times> products_row) list" where
  "stock_issue_pairs db =
     filter (\<lambda>(ord, p). sql_true (sql_gt (o_quantity ord)
                                      (sql_add (p_stock_quantity p) (Some 100))))
       (inner_join (orders db) (products db)
          (\<lambda>ord p. sql_eq (o_product_id ord) (p_product_id p)))"

definition potential_stock_issues :: "database \<Rightarrow> pyval list" where
  "potential_stock_issues db =
     map (\<lambda>(ord, p). PTuple [py_int (o_order_id ord), py_int (o_product_id ord),
                            py_int (o_quantity ord), py_int (p_stock_quantity p)])
       (stock_issue_pairs db)"

definition consistency_issues :: "database \<Rightarrow> pyval list" where
  "consistency_issues db =
     (if price_mismatches db \<noteq> []
      then [PFStr ''Order prices differ from current product prices (may be expected): ''
              (PInt (int (length (price_mismatches db)))) '' cases'']
      else []) @
     (if potential_stock_issues db \<noteq> []
      then [PFStr ''Orders with quantities significantly exceeding current stock: ''
              (PInt (int (length (potential_stock_issues db)))) '' cases'']
      else [])"

definition validate_data_consistency :: "database \<Rightarrow> pyval" where
  "validate_data_consistency db =
     PDict [(''check'', PStr ''data_consistency''),
            (''valid'', PBool (length (consistency_issues db) = 0)),
            (''issues'', PList (consistency_issues db))]"

section \<open>run\_full\_validation\<close>

text \<open>
  \<^verbatim>\<open>run_full_validation\<close> opens the database, runs the five checks, prints the report and
  closes the database. The model starts from the content of the three tables: opening and
  closing the connection, and a query that fails because a table is missing, are outside
  it. The dictionary \<^verbatim>\<open>results\<close> is what the function builds and returns.
\<close>

definition results :: "database \<Rightarrow> pyval" where
  "results db =
     PDict [(''customers'', validate_customers db),
            (''products'', validate_products db),
            (''orders'', validate_orders db),
            (''foreign_keys'', validate_foreign_keys db),
            (''consistency'', validate_data_consistency db)]"

text \<open>\<^verbatim>\<open>results[k]['valid']\<close> and \<^verbatim>\<open>results[k]['issues']\<close>.\<close>

definition valid_at :: "pyval \<Rightarrow> string \<Rightarrow> pyval option" where
  "valid_at res k = Option.bind (item res k) (\<lambda>sec. item sec ''valid'')"

definition issues_at :: "pyval \<Rightarrow> string \<Rightarrow> pyval option" where
  "issues_at res k = Option.bind (item res k) (\<lambda>sec. item sec ''issues'')"

text \<open>
  The local \<^verbatim>\<open>all_valid\<close>: \<^verbatim>\<open>all([...])\<close> over the \<^verbatim>\<open>valid\<close> entries of four sections.
\<close>

definition all_valid :: "pyval \<Rightarrow> bool option" where
  "all_valid res =
     Option.bind (valid_at res ''customers'') (\<lambda>a.
     Option.bind (valid_at res ''products'') (\<lambda>b.
     Option.bind (valid_at res ''orders'') (\<lambda>c.
     Option.bind (valid_at res ''foreign_keys'') (\<lambda>d.
       Some (list_all truthy [a, b, c, d])))))"

text \<open>
  What the function prints, one entry per call of \<^verbatim>\<open>print\<close>. The three symbols of the
  status lines are written as their UTF-8 bytes.
\<close>

definition check_mark :: string where
  "check_mark = [CHR 0xE2, CHR 0x9C, CHR 0x93]"

definition ballot_x :: string where
  "ballot_x = [CHR 0xE2, CHR 0x9C, CHR 0x97]"

definition warning_sign :: string where
  "warning_sign = [CHR 0xE2, CHR 0x9A, CHR 0xA0]"

definition rule_line :: string where
  "rule_line = replicate 60 (CHR ''='')"

definition print_section :: "pyval \<Rightarrow> string \<Rightarrow> string \<Rightarrow> string \<Rightarrow> string \<Rightarrow> pyval list option" where
  "print_section res k title good bad =
     Option.bind (valid_at res k) (\<lambda>v.
     Option.bind (issues_at res k) (\<lambda>iss.
       case iss of
         PList xs \<Rightarrow>
           Some ([PStr (CHR 0x0A # title),
                  PFStr ''  Status: '' (PStr (if truthy v then good else bad)) ''''] @
                 map (\<lambda>issue. PFStr ''  - '' issue '''') xs)
       | _ \<Rightarrow> None))"

record run =
  printed :: "pyval list"
  returned :: pyval

definition run_full_validation :: "database \<Rightarrow> run option" where
  "run_full_validation db =
     (let res = results db in
      Option.bind (print_section res ''customers'' ''[Customers Validation]''
                     (check_mark @ '' Valid'') (ballot_x @ '' Issues Found'')) (\<lambda>out1.
      Option.bind (print_section res ''products'' ''[Products Validation]''
                     (check_mark @ '' Valid'') (ballot_x @ '' Issues Found'')) (\<lambda>out2.
      Option.bind (print_section res ''orders'' ''[Orders Validation]''
                     (check_mark @ '' Valid'') (ballot_x @ '' Issues Found'')) (\<lambda>out3.
      Option.bind (print_section res ''foreign_keys'' ''[Foreign Keys Validation]''
                     (check_mark @ '' Valid'') (ballot_x @ '' Issues Found'')) (\<lambda>out4.
      Option.bind (print_section res ''consistency'' ''[Data Consistency Check]''
                     (check_mark @ '' Consistent'') (warning_sign @ '' Warnings'')) (\<lambda>out5.
      Option.bind (all_valid res) (\<lambda>ok.
        Some \<lparr>printed =
                [PStr rule_line, PStr ''Data Validation Report'', PStr rule_line] @
                out1 @ out2 @ out3 @ out4 @ out5 @
                [PStr (CHR 0x0A # rule_line),
                 PFStr ''Overall Status: ''
                   (PStr (if ok then check_mark @ '' All Validations Passed''
                          else ballot_x @ '' Some Issues Found'')) '''',
                 PStr rule_line],
              returned = res\<rparr>)))))))"

section \<open>Sample snapshots and report predicates\<close>

text \<open>
  \<^verbatim>\<open>ABS(u - v) > 0.01\<close> on two prices that are present, as double-precision arithmetic
  computes it: the difference is rounded to a double and compared with the double nearest
  to 0.01; a difference that is not a number makes the comparison \<^verbatim>\<open>NULL\<close>, not true.
\<close>

definition drift_over_tolerance :: "double \<Rightarrow> double \<Rightarrow> bool" where
  "drift_over_tolerance u v =
     (case double_sub u v of
        Some d \<Rightarrow> double_less (round_to_double 0.01) (double_abs d)
      | None \<Rightarrow> False)"

definition empty_db :: database where
  "empty_db = \<lparr>customers = [], products = [], orders = []\<rparr>"

definition section_valid :: "pyval \<Rightarrow> bool" where
  "section_valid sec = (item sec ''valid'' = Some (PBool True))"

definition drift_db :: database where
  "drift_db =
     \<lparr>customers = [\<lparr>c_customer_id = Some 1, c_first_name = Some ''Ann'',
                      c_last_name = Some ''Lee'', c_email = Some ''ann@x.org''\<rparr>],
      products = [\<lparr>p_product_id = Some 101, p_product_name = Some ''Desk'',
                     p_price = Some (round_to_double 100.02), p_stock_quantity = Some 5\<rparr>],
      orders = [\<lparr>o_order_id = Some 1, o_customer_id = Some 1, o_product_id = Some 101,
                   o_quantity = Some 1, o_unit_price = Some (Finite 100)\<rparr>]\<rparr>"


text \<open>
  The format rule in the words of the specification: the value contains an \<^verbatim>\<open>@\<close> that is
  followed, somewhere after it, by a \<^verbatim>\<open>.\<close>.
\<close>

definition at_then_dot :: "string \<Rightarrow> bool" where
  "at_then_dot s = (\<exists>a t. s = a @ CHR ''@'' # t \<and> CHR ''.'' \<in> set t)"

definition bad_email_db :: database where
  "bad_email_db =
     \<lparr>customers = [\<lparr>c_customer_id = Some 1, c_first_name = Some ''Ann'',
                      c_last_name = Some ''Lee'', c_email = Some ''ann.lee.org''\<rparr>,
                   \<lparr>c_customer_id = Some 2, c_first_name = Some ''Bob'',
                      c_last_name = Some ''Ray'', c_email = Some ''bob@x.org''\<rparr>],
      products = [],
      orders = []\<rparr>"

definition near_db :: database where
  "near_db =
     \<lparr>customers = [\<lparr>c_customer_id = Some 1, c_first_name = Some ''Ann'',
                      c_last_name = Some ''Lee'', c_email = Some ''ann@x.org''\<rparr>],
      products = [\<lparr>p_product_id = Some 101, p_product_name = Some ''Desk'',
                     p_price = Some (round_to_double 100.009), p_stock_quantity = Some 5\<rparr>],
      orders = [\<lparr>o_order_id = Some 1, o_customer_id = Some 1, o_product_id = Some 101,
                   o_quantity = Some 1, o_unit_price = Some (Finite 100)\<rparr>]\<rparr>"

definition stock_db :: database where
  "stock_db =
     \<lparr>customers = [\<lparr>c_customer_id = Some 1, c_first_name = Some ''Ann'',
                      c_last_name = Some ''Lee'', c_email = Some ''ann@x.org''\<rparr>],
      products = [\<lparr>p_product_id = Some 101, p_product_name = Some ''Desk'',
                     p_price = Some (Finite 100), p_stock_quantity = Some 5\<rparr>],
      orders = [\<lparr>o_order_id = Some 1, o_customer_id = Some 1, o_product_id = Some 101,
                   o_quantity = Some 105, o_unit_price = Some (Finite 100)\<rparr>,
                \<lparr>o_order_id = Some 2, o_customer_id = Some 1, o_product_id = Some 101,
                   o_quantity = Some 106, o_unit_price = Some (Finite 100)\<rparr>]\<rparr>"

text \<open>The literal text of an issue before its replacement field: it names the rule.\<close>

fun issue_label :: "pyval \<Rightarrow> string" where
  "issue_label (PFStr pre v post) = pre"
| "issue_label _ = []"


definition null_key_db :: database where
  "null_key_db =
     \<lparr>customers = [\<lparr>c_customer_id = Some 1, c_first_name = Some ''Ann'',
                      c_last_name = Some ''Lee'', c_email = Some ''ann@x.org''\<rparr>],
      products = [\<lparr>p_product_id = Some 101, p_product_name = Some ''Desk'',
                     p_price = Some (Finite 100), p_stock_quantity = Some 5\<rparr>],
      orders = [\<lparr>o_order_id = Some 1, o_customer_id = None, o_product_id = Some 101,
                   o_quantity = Some 1, o_unit_price = Some (Finite 100)\<rparr>,
                \<lparr>o_order_id = Some 2, o_customer_id = Some 1, o_product_id = None,
                   o_quantity = Some 1, o_unit_price = Some (Finite 100)\<rparr>]\<rparr>"

definition many_bad_db :: database where
  "many_bad_db =
     \<lparr>customers = [\<lparr>c_customer_id = Some 1, c_first_name = None,
                      c_last_name = Some ''Lee'', c_email = Some ''ann.lee.org''\<rparr>,
                   \<lparr>c_customer_id = Some 2, c_first_name = Some ''Bob'',
                      c_last_name = Some ''Ray'', c_email = Some ''bob-at-x''\<rparr>,
                   \<lparr>c_customer_id = Some 3, c_first_name = Some ''Cyd'',
                      c_last_name = None, c_email = Some ''bob-at-x''\<rparr>],
      products = [],
      orders = []\<rparr>"

definition dup_customer_id_db :: database where
  "dup_customer_id_db =
     \<lparr>customers = [\<lparr>c_customer_id = Some 7, c_first_name = Some ''Ann'',
                      c_last_name = Some ''Lee'', c_email = Some ''ann@x.org''\<rparr>,
                   \<lparr>c_customer_id = Some 7, c_first_name = Some ''Bob'',
                      c_last_name = Some ''Ray'', c_email = Some ''bob@x.org''\<rparr>],
      products = [],
      orders = []\<rparr>"

definition dup_product_id_db :: database where
  "dup_product_id_db =
     \<lparr>customers = [],
      products = [\<lparr>p_product_id = Some 101, p_product_name = Some ''Desk'',
                     p_price = Some (Finite 100), p_stock_quantity = Some 5\<rparr>,
                  \<lparr>p_product_id = Some 101, p_product_name = Some ''Lamp'',
                     p_price = Some (Finite 20), p_stock_quantity = Some 8\<rparr>],
      orders = []\<rparr>"







text \<open>
  The valid dataset of the specification: no duplicate keys, all emails matching the
  pattern (as the validator's \<^verbatim>\<open>LIKE\<close> matches them), all orders referencing existing
  customers and products, all prices, unit prices and stock quantities at least 0, all
  order quantities greater than 0.
\<close>

definition valid_dataset :: "database \<Rightarrow> bool" where
  "valid_dataset db =
     (distinct (map c_customer_id (customers db)) \<and>
      distinct (map p_product_id (products db)) \<and>
      distinct (map o_order_id (orders db)) \<and>
      list_all (\<lambda>c. sql_true (sql_like (c_email c) ''%@%.%'')) (customers db) \<and>
      list_all (\<lambda>ord.
          (case o_customer_id ord of
             Some k \<Rightarrow> Some k \<in> set (map c_customer_id (customers db)) | None \<Rightarrow> False) \<and>
          (case o_product_id ord of
             Some k \<Rightarrow> Some k \<in> set (map p_product_id (products db)) | None \<Rightarrow> False))
        (orders db) \<and>
      list_all (\<lambda>p. (case p_price p of Some v \<Rightarrow> \<not> double_less v (Finite 0) | None \<Rightarrow> False) \<and>
                     (case p_stock_quantity p of Some s \<Rightarrow> 0 \<le> s | None \<Rightarrow> False))
        (products db) \<and>
      list_all (\<lambda>ord. (case o_unit_price ord of
                          Some u \<Rightarrow> \<not> double_less u (Finite 0) | None \<Rightarrow> False) \<and>
                       (case o_quantity ord of Some q \<Rightarrow> 0 < q | None \<Rightarrow> False))
        (orders db))"

text \<open>What the validator needs beyond that: the name columns present, no email twice.\<close>

definition names_present :: "database \<Rightarrow> bool" where
  "names_present db =
     (list_all (\<lambda>c. c_first_name c \<noteq> None \<and> c_last_name c \<noteq> None) (customers db) \<and>
      list_all (\<lambda>p. p_product_name p \<noteq> None) (products db))"

definition emails_distinct :: "database \<Rightarrow> bool" where
  "emails_distinct db = distinct (map c_email (customers db))"

definition cent_db :: database where
  "cent_db =
     \<lparr>customers = [\<lparr>c_customer_id = Some 1, c_first_name = Some ''Ann'',
                      c_last_name = Some ''Lee'', c_email = Some ''ann@x.org''\<rparr>],
      products = [\<lparr>p_product_id = Some 101, p_product_name = Some ''Desk'',
                     p_price = Some (round_to_double 100.01), p_stock_quantity = Some 5\<rparr>],
      orders = [\<lparr>o_order_id = Some 1, o_customer_id = Some 1, o_product_id = Some 101,
                   o_quantity = Some 1, o_unit_price = Some (Finite 100)\<rparr>]\<rparr>"

definition penny_db :: database where
  "penny_db =
     \<lparr>customers = [\<lparr>c_customer_id = Some 1, c_first_name = Some ''Ann'',
                      c_last_name = Some ''Lee'', c_email = Some ''ann@x.org''\<rparr>],
      products = [\<lparr>p_product_id = Some 101, p_product_name = Some ''Gift'',
                     p_price = Some (Finite 0), p_stock_quantity = Some 5\<rparr>],
      orders = [\<lparr>o_order_id = Some 1, o_customer_id = Some 1, o_product_id = Some 101,
                   o_quantity = Some 1, o_unit_price = Some (round_to_double 0.01)\<rparr>]\<rparr>"

definition nul_email_db :: database where
  "nul_email_db =
     \<lparr>customers = [\<lparr>c_customer_id = Some 1, c_first_name = Some ''Ann'',
                      c_last_name = Some ''Lee'',
                      c_email = Some (CHR ''a'' # CHR 0x00 # ''@b.c'')\<rparr>],
      products = [],
      orders = []\<rparr>"

definition null_email_db :: database where
  "null_email_db =
     \<lparr>customers = [\<lparr>c_customer_id = Some 1, c_first_name = Some ''Ann'',
                      c_last_name = Some ''Lee'', c_email = None\<rparr>],
      products = [],
      orders = []\<rparr>"

definition null_name_db :: database where
  "null_name_db =
     \<lparr>customers = [\<lparr>c_customer_id = Some 1, c_first_name = None,
                      c_last_name = Some ''Lee'', c_email = Some ''ann@x.org''\<rparr>],
      products = [],
      orders = []\<rparr>"

definition dup_email_db :: database where
  "dup_email_db =
     \<lparr>customers = [\<lparr>c_customer_id = Some 1, c_first_name = Some ''Ann'',
                      c_last_name = Some ''Lee'', c_email = Some ''office@x.org''\<rparr>,
                   \<lparr>c_customer_id = Some 2, c_first_name = Some ''Bob'',
                      c_last_name = Some ''Ray'', c_email = Some ''office@x.org''\<rparr>],
      products = [],
      orders = []\<rparr>"

section \<open>Reading the returned dictionaries\<close>

lemma valid_at_results:
  "valid_at (results db) ''customers'' = Some (PBool (customers_issues db = []))"
  "valid_at (results db) ''products'' = Some (PBool (products_issues db = []))"
  "valid_at (results db) ''orders'' = Some (PBool (orders_issues db = []))"
  "valid_at (results db) ''foreign_keys'' = Some (PBool (foreign_keys_issues db = []))"
  "valid_at (results db) ''consistency'' = Some (PBool (consistency_issues db = []))"
  by (simp_all add: valid_at_def results_def validate_customers_def validate_products_def
      validate_orders_def validate_foreign_keys_def validate_data_consistency_def)

lemma issues_at_results:
  "issues_at (results db) ''customers'' = Some (PList (customers_issues db))"
  "issues_at (results db) ''products'' = Some (PList (products_issues db))"
  "issues_at (results db) ''orders'' = Some (PList (orders_issues db))"
  "issues_at (results db) ''foreign_keys'' = Some (PList (foreign_keys_issues db))"
  "issues_at (results db) ''consistency'' = Some (PList (consistency_issues db))"
  by (simp_all add: issues_at_def results_def validate_customers_def validate_products_def
      validate_orders_def validate_foreign_keys_def validate_data_consistency_def)

lemma section_valid_simps:
  "section_valid (validate_customers db) = (customers_issues db = [])"
  "section_valid (validate_products db) = (products_issues db = [])"
  "section_valid (validate_orders db) = (orders_issues db = [])"
  "section_valid (validate_foreign_keys db) = (foreign_keys_issues db = [])"
  "section_valid (validate_data_consistency db) = (consistency_issues db = [])"
  by (simp_all add: section_valid_def validate_customers_def validate_products_def
      validate_orders_def validate_foreign_keys_def validate_data_consistency_def)

lemma all_valid_results:
  "all_valid (results db) =
     Some (customers_issues db = [] \<and> products_issues db = [] \<and>
           orders_issues db = [] \<and> foreign_keys_issues db = [])"
  by (simp add: all_valid_def valid_at_results)

lemma all_valid_ignores_consistency:
  "all_valid (PDict [(''customers'', a), (''products'', b), (''orders'', c),
                     (''foreign_keys'', d), (''consistency'', e)]) =
   all_valid (PDict [(''customers'', a), (''products'', b), (''orders'', c),
                     (''foreign_keys'', d), (''consistency'', e')])"
  by (simp add: all_valid_def valid_at_def)

lemma run_full_validation_eq:
  "run_full_validation db =
     Some \<lparr>printed =
        [PStr rule_line, PStr ''Data Validation Report'', PStr rule_line] @
        ([PStr (CHR 0x0A # ''[Customers Validation]''),
          PFStr ''  Status: '' (PStr (if customers_issues db = [] then check_mark @ '' Valid''
                                      else ballot_x @ '' Issues Found'')) ''''] @
         map (\<lambda>issue. PFStr ''  - '' issue '''') (customers_issues db)) @
        ([PStr (CHR 0x0A # ''[Products Validation]''),
          PFStr ''  Status: '' (PStr (if products_issues db = [] then check_mark @ '' Valid''
                                      else ballot_x @ '' Issues Found'')) ''''] @
         map (\<lambda>issue. PFStr ''  - '' issue '''') (products_issues db)) @
        ([PStr (CHR 0x0A # ''[Orders Validation]''),
          PFStr ''  Status: '' (PStr (if orders_issues db = [] then check_mark @ '' Valid''
                                      else ballot_x @ '' Issues Found'')) ''''] @
         map (\<lambda>issue. PFStr ''  - '' issue '''') (orders_issues db)) @
        ([PStr (CHR 0x0A # ''[Foreign Keys Validation]''),
          PFStr ''  Status: '' (PStr (if foreign_keys_issues db = [] then check_mark @ '' Valid''
                                      else ballot_x @ '' Issues Found'')) ''''] @
         map (\<lambda>issue. PFStr ''  - '' issue '''') (foreign_keys_issues db)) @
        ([PStr (CHR 0x0A # ''[Data Consistency Check]''),
          PFStr ''  Status: '' (PStr (if consistency_issues db = [] then check_mark @ '' Consistent''
                                      else warning_sign @ '' Warnings'')) ''''] @
         map (\<lambda>issue. PFStr ''  - '' issue '''') (consistency_issues db)) @
        [PStr (CHR 0x0A # rule_line),
         PFStr ''Overall Status: ''
           (PStr (if customers_issues db = [] \<and> products_issues db = [] \<and>
                     orders_issues db = [] \<and> foreign_keys_issues db = []
                  then check_mark @ '' All Validations Passed''
                  else ballot_x @ '' Some Issues Found'')) '''',
         PStr rule_line],
       returned = results db\<rparr>"
  unfolding run_full_validation_def Let_def print_section_def
  by (simp only: valid_at_results issues_at_results all_valid_results Option.bind.simps
      pyval.case truthy.simps)

lemmas issues_defs =
  customers_issues_def products_issues_def orders_issues_def foreign_keys_issues_def
  consistency_issues_def

lemma section_items:
  "item (validate_customers db) ''valid'' = Some (PBool (customers_issues db = []))"
  "item (validate_customers db) ''issues'' = Some (PList (customers_issues db))"
  "item (validate_products db) ''valid'' = Some (PBool (products_issues db = []))"
  "item (validate_products db) ''issues'' = Some (PList (products_issues db))"
  "item (validate_orders db) ''valid'' = Some (PBool (orders_issues db = []))"
  "item (validate_orders db) ''issues'' = Some (PList (orders_issues db))"
  "item (validate_foreign_keys db) ''valid'' = Some (PBool (foreign_keys_issues db = []))"
  "item (validate_foreign_keys db) ''issues'' = Some (PList (foreign_keys_issues db))"
  "item (validate_data_consistency db) ''valid'' = Some (PBool (consistency_issues db = []))"
  "item (validate_data_consistency db) ''issues'' = Some (PList (consistency_issues db))"
  by (simp_all add: validate_customers_def validate_products_def validate_orders_def
      validate_foreign_keys_def validate_data_consistency_def)

lemma results_items:
  "item (results db) ''customers'' = Some (validate_customers db)"
  "item (results db) ''products'' = Some (validate_products db)"
  "item (results db) ''orders'' = Some (validate_orders db)"
  "item (results db) ''foreign_keys'' = Some (validate_foreign_keys db)"
  "item (results db) ''consistency'' = Some (validate_data_consistency db)"
  by (simp_all add: results_def)

section \<open>Joins and grouping\<close>

lemma set_inner_join:
  "(x, y) \<in> set (inner_join xs ys cond) \<longleftrightarrow> x \<in> set xs \<and> y \<in> set ys \<and> sql_true (cond x y)"
  by (auto simp: inner_join_def)

lemma left_join_row:
  "(case zs of [] \<Rightarrow> [(x, None)] | m # ms \<Rightarrow> map (\<lambda>y. (x, Some y)) (m # ms)) =
   (if zs = [] then [(x, None)] else map (\<lambda>y. (x, Some y)) zs)"
  by (cases zs) simp_all

lemma left_join_None:
  "(x, None) \<in> set (left_join xs ys cond) \<longleftrightarrow>
     x \<in> set xs \<and> (\<forall>y\<in>set ys. \<not> sql_true (cond x y))"
  unfolding left_join_def left_join_row
  by (auto simp: filter_empty_conv)

lemma left_join_Some:
  "(x, Some y) \<in> set (left_join xs ys cond) \<longleftrightarrow>
     x \<in> set xs \<and> y \<in> set ys \<and> sql_true (cond x y)"
  unfolding left_join_def left_join_row
  by (auto simp: filter_empty_conv)

lemma sql_true_sql_eq:
  "sql_true (sql_eq a b) \<longleftrightarrow> (\<exists>k. a = Some k \<and> b = Some k)"
  by (auto simp: sql_true_def sql_eq_def split: option.splits)

lemma length_filter_key:
  "length (filter (\<lambda>r. key r = k) rows) = count_list (map key rows) k"
  by (induction rows) auto

lemma count_le_1_if_distinct:
  "distinct xs \<Longrightarrow> count_list xs x \<le> 1"
  by (induction xs) (auto simp: count_list_0_iff)

lemma not_distinct_has_dup:
  "\<not> distinct xs \<Longrightarrow> \<exists>x\<in>set xs. 1 < count_list xs x"
proof (induction xs)
  case Nil
  then show ?case by simp
next
  case (Cons a xs)
  show ?case
  proof (cases "a \<in> set xs")
    case True
    then have "count_list xs a \<noteq> 0"
      by (simp add: count_list_0_iff)
    then have "1 < count_list (a # xs) a" by simp
    then show ?thesis by (intro bexI[of _ a]) simp_all
  next
    case False
    with Cons.prems have "\<not> distinct xs" by simp
    then obtain x where x: "x \<in> set xs" "1 < count_list xs x"
      using Cons.IH by blast
    then have "1 < count_list (a # xs) x" by simp
    with x(1) show ?thesis by (intro bexI[of _ x]) simp_all
  qed
qed

lemma count_filter_le_1:
  "distinct (map key rows) \<Longrightarrow> length (filter (\<lambda>r. key r = k) rows) \<le> 1"
  unfolding length_filter_key by (rule count_le_1_if_distinct)

lemma not_distinct_count:
  "\<not> distinct (map key rows) \<Longrightarrow> \<exists>k\<in>set (map key rows). 1 < length (filter (\<lambda>r. key r = k) rows)"
  unfolding length_filter_key by (rule not_distinct_has_dup)

lemma in_group_by_count:
  "(k, n) \<in> set (group_by_count key rows) \<longleftrightarrow>
     k \<in> key ` set rows \<and> n = length (filter (\<lambda>r. key r = k) rows)"
  by (auto simp: group_by_count_def)

lemma duplicates_empty_iff:
  "filter (\<lambda>(k, n). n > 1) (group_by_count key rows) = [] \<longleftrightarrow> distinct (map key rows)"
proof
  assume empty: "filter (\<lambda>(k, n). n > 1) (group_by_count key rows) = []"
  have "\<not> 1 < length (filter (\<lambda>r. key r = k) rows)" if "k \<in> set (map key rows)" for k
  proof -
    from that have "(k, length (filter (\<lambda>r. key r = k) rows)) \<in> set (group_by_count key rows)"
      by (simp add: in_group_by_count)
    with empty show ?thesis
      unfolding filter_empty_conv by blast
  qed
  then show "distinct (map key rows)"
    using not_distinct_count[of key rows] by blast
next
  assume d: "distinct (map key rows)"
  have "\<not> (case x of (k, n) \<Rightarrow> 1 < n)" if "x \<in> set (group_by_count key rows)" for x
  proof -
    obtain k n where x: "x = (k, n)" by (cases x)
    with that have "n = length (filter (\<lambda>r. key r = k) rows)"
      by (simp add: in_group_by_count)
    with count_filter_le_1[OF d, of k] x show ?thesis by simp
  qed
  then show "filter (\<lambda>(k, n). n > 1) (group_by_count key rows) = []"
    unfolding filter_empty_conv by blast
qed

lemma list_empty_iff_no_member: "xs = [] \<longleftrightarrow> (\<forall>x. x \<notin> set xs)"
  by (cases xs) auto

section \<open>The pattern of the email check\<close>

lemma ascii_lower_at [simp]:
  "ascii_lower c = CHR ''@'' \<longleftrightarrow> c = CHR ''@''"
  "CHR ''@'' = ascii_lower c \<longleftrightarrow> c = CHR ''@''"
  "ascii_lower (CHR ''@'') = CHR ''@''"
  unfolding ascii_lower_def by (auto split: option.splits if_splits)

lemma ascii_lower_dot [simp]:
  "ascii_lower c = CHR ''.'' \<longleftrightarrow> c = CHR ''.''"
  "CHR ''.'' = ascii_lower c \<longleftrightarrow> c = CHR ''.''"
  "ascii_lower (CHR ''.'') = CHR ''.''"
  unfolding ascii_lower_def by (auto split: option.splits if_splits)

lemma like_any: "sqlite_like ''%'' s"
  by (induction s) simp_all

lemma like_dot_any: "sqlite_like ''.%'' s \<longleftrightarrow> (\<exists>t. s = CHR ''.'' # t)"
  by (cases s) (auto simp: like_any)

lemma like_any_dot_any: "sqlite_like ''%.%'' s \<longleftrightarrow> CHR ''.'' \<in> set s"
proof (induction s)
  case Nil
  then show ?case by simp
next
  case (Cons c s)
  have "sqlite_like ''%.%'' (c # s) \<longleftrightarrow> sqlite_like ''.%'' (c # s) \<or> sqlite_like ''%.%'' s"
    by simp
  also have "\<dots> \<longleftrightarrow> c = CHR ''.'' \<or> CHR ''.'' \<in> set s"
    unfolding like_dot_any Cons.IH by auto
  finally show ?case by auto
qed

lemma like_at_any_dot_any:
  "sqlite_like ''@%.%'' s \<longleftrightarrow> (\<exists>t. s = CHR ''@'' # t \<and> CHR ''.'' \<in> set t)"
proof (cases s)
  case Nil
  then show ?thesis by simp
next
  case (Cons c t)
  have "sqlite_like ''@%.%'' (c # t) \<longleftrightarrow> c = CHR ''@'' \<and> sqlite_like ''%.%'' t"
    by simp
  with Cons show ?thesis by (simp add: like_any_dot_any)
qed

lemma like_email_pattern:
  "sqlite_like ''%@%.%'' s \<longleftrightarrow> (\<exists>a t. s = a @ CHR ''@'' # t \<and> CHR ''.'' \<in> set t)"
proof (induction s)
  case Nil
  then show ?case by simp
next
  case (Cons c s)
  have step: "sqlite_like ''%@%.%'' (c # s) \<longleftrightarrow>
        sqlite_like ''@%.%'' (c # s) \<or> sqlite_like ''%@%.%'' s"
    by simp
  show ?case
  proof
    assume "sqlite_like ''%@%.%'' (c # s)"
    with step consider "sqlite_like ''@%.%'' (c # s)" | "sqlite_like ''%@%.%'' s" by blast
    then show "\<exists>a t. c # s = a @ CHR ''@'' # t \<and> CHR ''.'' \<in> set t"
    proof cases
      case 1
      then obtain t where "c # s = CHR ''@'' # t" "CHR ''.'' \<in> set t"
        unfolding like_at_any_dot_any by blast
      then have "c # s = [] @ CHR ''@'' # t \<and> CHR ''.'' \<in> set t" by simp
      then show ?thesis by blast
    next
      case 2
      then obtain a t where "s = a @ CHR ''@'' # t" "CHR ''.'' \<in> set t"
        using Cons.IH by blast
      then have "c # s = (c # a) @ CHR ''@'' # t \<and> CHR ''.'' \<in> set t" by simp
      then show ?thesis by blast
    qed
  next
    assume "\<exists>a t. c # s = a @ CHR ''@'' # t \<and> CHR ''.'' \<in> set t"
    then obtain a t where at: "c # s = a @ CHR ''@'' # t" "CHR ''.'' \<in> set t" by blast
    show "sqlite_like ''%@%.%'' (c # s)"
    proof (cases a)
      case Nil
      with at have "sqlite_like ''@%.%'' (c # s)"
        unfolding like_at_any_dot_any by simp
      with step show ?thesis by blast
    next
      case (Cons c' a')
      with at have "s = a' @ CHR ''@'' # t" by simp
      with at(2) have "sqlite_like ''%@%.%'' s"
        using Cons.IH by blast
      with step show ?thesis by blast
    qed
  qed
qed

lemma c_str_email_pattern: "c_str ''%@%.%'' = ''%@%.%''"
  by (simp add: c_str_def)

lemma c_str_without_nul: "CHR 0x00 \<notin> set s \<Longrightarrow> c_str s = s"
  by (auto simp: c_str_def)

lemma sql_like_email_pattern:
  "sql_like (Some s) ''%@%.%'' = Some (at_then_dot (c_str s))"
  by (simp add: sql_like_def c_str_email_pattern like_email_pattern at_then_dot_def)

lemma invalid_email_cond:
  "sql_true (sql_not (sql_like e ''%@%.%'')) \<longleftrightarrow>
     (\<exists>s. e = Some s \<and> \<not> at_then_dot (c_str s))"
  by (cases e) (simp_all add: sql_like_email_pattern sql_true_def sql_not_def, simp add: sql_like_def)

lemma valid_email_cond:
  "sql_true (sql_like e ''%@%.%'') \<longleftrightarrow> (\<exists>s. e = Some s \<and> at_then_dot (c_str s))"
  by (cases e) (simp_all add: sql_like_email_pattern sql_true_def, simp add: sql_like_def)

section \<open>Conditions of the queries\<close>

lemma py_cell_simps [simp]:
  "py_str x = PStr s \<longleftrightarrow> x = Some s"
  "py_str x = PNone \<longleftrightarrow> x = None"
  "py_int y = PInt i \<longleftrightarrow> y = Some i"
  "py_int y = PNone \<longleftrightarrow> y = None"
  "py_float z = PFloat r \<longleftrightarrow> z = Some r"
  "py_float z = PNone \<longleftrightarrow> z = None"
  "py_str (Some s) = PStr s" "py_str None = PNone"
  "py_int (Some i) = PInt i" "py_int None = PNone"
  "py_float (Some r) = PFloat r" "py_float None = PNone"
  by (auto simp: py_str_def py_int_def py_float_def split: option.splits)

lemma sql_cond_simps:
  "sql_true (sql_lt x (Some b)) \<longleftrightarrow> (\<exists>v. x = Some v \<and> v < b)"
  "sql_true (sql_le x (Some b)) \<longleftrightarrow> (\<exists>v. x = Some v \<and> v \<le> b)"
  "sql_true (sql_gt x (Some b)) \<longleftrightarrow> (\<exists>v. x = Some v \<and> b < v)"
  by (auto simp: sql_true_def sql_lt_def sql_le_def sql_gt_def split: option.splits)

lemma sql_gt_add:
  "sql_true (sql_gt x (sql_add y (Some b))) \<longleftrightarrow> (\<exists>v w. x = Some v \<and> y = Some w \<and> w + b < v)"
  by (auto simp: sql_true_def sql_gt_def sql_add_def split: option.splits)

lemma sql_real_lt_cond:
  "sql_true (sql_real_lt x (Some t)) \<longleftrightarrow> (\<exists>v. x = Some v \<and> double_less v t)"
  by (auto simp: sql_true_def sql_real_lt_def split: option.splits)

lemma sql_real_gt_abs_sub:
  "sql_true (sql_real_gt (sql_real_abs (sql_real_sub x y)) (Some t)) \<longleftrightarrow>
     (\<exists>u v d. x = Some u \<and> y = Some v \<and> double_sub u v = Some d \<and>
        double_less t (double_abs d))"
  by (auto simp: sql_true_def sql_real_gt_def sql_real_abs_def sql_real_sub_def
      split: option.splits)

lemma sql_true_not_like:
  "sql_true (sql_not (sql_like e pat)) \<longleftrightarrow>
     (\<exists>s. e = Some s \<and> \<not> sqlite_like (c_str pat) (c_str s))"
  by (cases e) (simp_all add: sql_true_def sql_not_def sql_like_def)

lemma sql_true_like:
  "sql_true (sql_like e pat) \<longleftrightarrow> (\<exists>s. e = Some s \<and> sqlite_like (c_str pat) (c_str s))"
  by (cases e) (simp_all add: sql_true_def sql_like_def)

lemmas eval_simps =
  customers_null_fields_def duplicate_emails_def invalid_emails_def
  products_null_fields_def negative_prices_def negative_stock_def duplicate_ids_def
  orders_null_fields_def invalid_quantities_def orders_negative_prices_def
  orphaned_customers_def orphaned_products_def
  price_mismatch_pairs_def price_mismatches_def stock_issue_pairs_def potential_stock_issues_def
  group_by_count_def inner_join_def left_join_def c_str_def
  sql_true_not_like sql_true_like sql_true_sql_eq sql_cond_simps sql_gt_add sql_real_lt_cond

section \<open>What each query returns\<close>

lemma in_invalid_emails:
  "row \<in> set (invalid_emails db) \<longleftrightarrow>
     (\<exists>c\<in>set (customers db). \<exists>s. c_email c = Some s \<and> \<not> at_then_dot (c_str s) \<and>
        row = PTuple [py_int (c_customer_id c), PStr s])"
  unfolding invalid_emails_def set_map set_filter invalid_email_cond
  by auto

lemma in_customers_issues:
  "PFStr ''Customers with NULL required fields: '' v post \<in> set (customers_issues db) \<longleftrightarrow>
     customers_null_fields db \<noteq> [] \<and> v = PList (customers_null_fields db) \<and> post = []"
  "PFStr ''Duplicate email addresses: '' v post \<in> set (customers_issues db) \<longleftrightarrow>
     duplicate_emails db \<noteq> [] \<and> v = PList (duplicate_emails db) \<and> post = []"
  "PFStr ''Invalid email format: '' v post \<in> set (customers_issues db) \<longleftrightarrow>
     invalid_emails db \<noteq> [] \<and> v = PList (invalid_emails db) \<and> post = []"
  by (auto simp: customers_issues_def)

lemma in_orphaned_customers:
  "row \<in> set (orphaned_customers db) \<longleftrightarrow>
     (\<exists>ord\<in>set (orders db).
        (\<forall>c\<in>set (customers db). \<not> sql_true (sql_eq (o_customer_id ord) (c_customer_id c))) \<and>
        row = PTuple [py_int (o_order_id ord), py_int (o_customer_id ord)])"
proof -
  let ?J = "left_join (orders db) (customers db)
              (\<lambda>ord c. sql_eq (o_customer_id ord) (c_customer_id c))"
  have kept: "(ord, c) \<in> set ?J \<and> Option.bind c c_customer_id = None \<longleftrightarrow>
        c = None \<and> ord \<in> set (orders db) \<and>
        (\<forall>c\<in>set (customers db). \<not> sql_true (sql_eq (o_customer_id ord) (c_customer_id c)))"
    for ord c
  proof (cases c)
    case None
    then show ?thesis by (simp add: left_join_None)
  next
    case (Some c')
    then show ?thesis by (auto simp: left_join_Some sql_true_sql_eq)
  qed
  have "row \<in> set (orphaned_customers db) \<longleftrightarrow>
        (\<exists>ord c. ((ord, c) \<in> set ?J \<and> Option.bind c c_customer_id = None) \<and>
           row = PTuple [py_int (o_order_id ord), py_int (o_customer_id ord)])"
    unfolding orphaned_customers_def by auto
  also have "\<dots> \<longleftrightarrow> (\<exists>ord\<in>set (orders db).
        (\<forall>c\<in>set (customers db). \<not> sql_true (sql_eq (o_customer_id ord) (c_customer_id c))) \<and>
        row = PTuple [py_int (o_order_id ord), py_int (o_customer_id ord)])"
    unfolding kept by blast
  finally show ?thesis .
qed

lemma in_orphaned_products:
  "row \<in> set (orphaned_products db) \<longleftrightarrow>
     (\<exists>ord\<in>set (orders db).
        (\<forall>p\<in>set (products db). \<not> sql_true (sql_eq (o_product_id ord) (p_product_id p))) \<and>
        row = PTuple [py_int (o_order_id ord), py_int (o_product_id ord)])"
proof -
  let ?J = "left_join (orders db) (products db)
              (\<lambda>ord p. sql_eq (o_product_id ord) (p_product_id p))"
  have kept: "(ord, p) \<in> set ?J \<and> Option.bind p p_product_id = None \<longleftrightarrow>
        p = None \<and> ord \<in> set (orders db) \<and>
        (\<forall>p\<in>set (products db). \<not> sql_true (sql_eq (o_product_id ord) (p_product_id p)))"
    for ord p
  proof (cases p)
    case None
    then show ?thesis by (simp add: left_join_None)
  next
    case (Some p')
    then show ?thesis by (auto simp: left_join_Some sql_true_sql_eq)
  qed
  have "row \<in> set (orphaned_products db) \<longleftrightarrow>
        (\<exists>ord p. ((ord, p) \<in> set ?J \<and> Option.bind p p_product_id = None) \<and>
           row = PTuple [py_int (o_order_id ord), py_int (o_product_id ord)])"
    unfolding orphaned_products_def by auto
  also have "\<dots> \<longleftrightarrow> (\<exists>ord\<in>set (orders db).
        (\<forall>p\<in>set (products db). \<not> sql_true (sql_eq (o_product_id ord) (p_product_id p))) \<and>
        row = PTuple [py_int (o_order_id ord), py_int (o_product_id ord)])"
    unfolding kept by blast
  finally show ?thesis .
qed

lemma in_price_mismatch_pairs:
  "(ord, p) \<in> set (price_mismatch_pairs db) \<longleftrightarrow>
     ord \<in> set (orders db) \<and> p \<in> set (products db) \<and>
     (\<exists>k. o_product_id ord = Some k \<and> p_product_id p = Some k) \<and>
     (\<exists>u v d. o_unit_price ord = Some u \<and> p_price p = Some v \<and> double_sub u v = Some d \<and>
        double_less (round_to_double 0.01) (double_abs d))"
  unfolding price_mismatch_pairs_def
  by (auto simp: set_inner_join sql_true_sql_eq sql_real_gt_abs_sub)

lemma in_stock_issue_pairs:
  "(ord, p) \<in> set (stock_issue_pairs db) \<longleftrightarrow>
     ord \<in> set (orders db) \<and> p \<in> set (products db) \<and>
     (\<exists>k. o_product_id ord = Some k \<and> p_product_id p = Some k) \<and>
     (\<exists>q s. o_quantity ord = Some q \<and> p_stock_quantity p = Some s \<and> q > s + 100)"
  unfolding stock_issue_pairs_def
  by (auto simp: set_inner_join sql_true_sql_eq sql_gt_add)

lemma in_consistency_issues:
  "PFStr ''Order prices differ from current product prices (may be expected): '' v post
     \<in> set (consistency_issues db) \<longleftrightarrow>
     price_mismatches db \<noteq> [] \<and> v = PInt (int (length (price_mismatches db))) \<and>
     post = '' cases''"
  "PFStr ''Orders with quantities significantly exceeding current stock: '' v post
     \<in> set (consistency_issues db) \<longleftrightarrow>
     potential_stock_issues db \<noteq> [] \<and> v = PInt (int (length (potential_stock_issues db))) \<and>
     post = '' cases''"
  by (auto simp: consistency_issues_def)

lemma in_price_mismatches:
  "row \<in> set (price_mismatches db) \<longleftrightarrow>
     (\<exists>ord p k u v d. ord \<in> set (orders db) \<and> p \<in> set (products db) \<and>
        o_product_id ord = Some k \<and> p_product_id p = Some k \<and>
        o_unit_price ord = Some u \<and> p_price p = Some v \<and> double_sub u v = Some d \<and>
        double_less (round_to_double 0.01) (double_abs d) \<and>
        row = PTuple [py_int (o_order_id ord), PInt k, PFloat u, PFloat v])"
proof -
  have "row \<in> set (price_mismatches db) \<longleftrightarrow>
     (\<exists>ord p. (ord, p) \<in> set (price_mismatch_pairs db) \<and>
        row = PTuple [py_int (o_order_id ord), py_int (o_product_id ord),
                      py_float (o_unit_price ord), py_float (p_price p)])"
    unfolding price_mismatches_def by auto
  also have "\<dots> \<longleftrightarrow>
     (\<exists>ord p k u v d. ord \<in> set (orders db) \<and> p \<in> set (products db) \<and>
        o_product_id ord = Some k \<and> p_product_id p = Some k \<and>
        o_unit_price ord = Some u \<and> p_price p = Some v \<and> double_sub u v = Some d \<and>
        double_less (round_to_double 0.01) (double_abs d) \<and>
        row = PTuple [py_int (o_order_id ord), PInt k, PFloat u, PFloat v])"
    unfolding in_price_mismatch_pairs by fastforce
  finally show ?thesis .
qed

lemma in_potential_stock_issues:
  "row \<in> set (potential_stock_issues db) \<longleftrightarrow>
     (\<exists>ord p k q s. ord \<in> set (orders db) \<and> p \<in> set (products db) \<and>
        o_product_id ord = Some k \<and> p_product_id p = Some k \<and>
        o_quantity ord = Some q \<and> p_stock_quantity p = Some s \<and> q > s + 100 \<and>
        row = PTuple [py_int (o_order_id ord), PInt k, PInt q, PInt s])"
proof -
  have "row \<in> set (potential_stock_issues db) \<longleftrightarrow>
     (\<exists>ord p. (ord, p) \<in> set (stock_issue_pairs db) \<and>
        row = PTuple [py_int (o_order_id ord), py_int (o_product_id ord),
                      py_int (o_quantity ord), py_int (p_stock_quantity p)])"
    unfolding potential_stock_issues_def by auto
  also have "\<dots> \<longleftrightarrow>
     (\<exists>ord p k q s. ord \<in> set (orders db) \<and> p \<in> set (products db) \<and>
        o_product_id ord = Some k \<and> p_product_id p = Some k \<and>
        o_quantity ord = Some q \<and> p_stock_quantity p = Some s \<and> q > s + 100 \<and>
        row = PTuple [py_int (o_order_id ord), PInt k, PInt q, PInt s])"
    unfolding in_stock_issue_pairs by fastforce
  finally show ?thesis .
qed

lemma in_foreign_keys_issues:
  "PFStr ''Orders with invalid customer_id: '' v post \<in> set (foreign_keys_issues db) \<longleftrightarrow>
     orphaned_customers db \<noteq> [] \<and> v = PList (orphaned_customers db) \<and> post = []"
  "PFStr ''Orders with invalid product_id: '' v post \<in> set (foreign_keys_issues db) \<longleftrightarrow>
     orphaned_products db \<noteq> [] \<and> v = PList (orphaned_products db) \<and> post = []"
  by (auto simp: foreign_keys_issues_def)

lemma in_orders_issues:
  "PFStr ''Orders with NULL required fields: '' v post \<in> set (orders_issues db) \<longleftrightarrow>
     orders_null_fields db \<noteq> [] \<and> v = PList (orders_null_fields db) \<and> post = []"
  "PFStr ''Orders with invalid quantities: '' v post \<in> set (orders_issues db) \<longleftrightarrow>
     invalid_quantities db \<noteq> [] \<and> v = PList (invalid_quantities db) \<and> post = []"
  "PFStr ''Orders with negative prices: '' v post \<in> set (orders_issues db) \<longleftrightarrow>
     orders_negative_prices db \<noteq> [] \<and> v = PList (orders_negative_prices db) \<and> post = []"
  by (auto simp: orders_issues_def)



lemma issue_labels:
  "map issue_label (customers_issues db) =
     (if customers_null_fields db \<noteq> [] then [''Customers with NULL required fields: ''] else []) @
     (if duplicate_emails db \<noteq> [] then [''Duplicate email addresses: ''] else []) @
     (if invalid_emails db \<noteq> [] then [''Invalid email format: ''] else [])"
  "map issue_label (products_issues db) =
     (if products_null_fields db \<noteq> [] then [''Products with NULL required fields: ''] else []) @
     (if negative_prices db \<noteq> [] then [''Products with negative prices: ''] else []) @
     (if negative_stock db \<noteq> [] then [''Products with negative stock: ''] else []) @
     (if duplicate_ids db \<noteq> [] then [''Duplicate product IDs: ''] else [])"
  "map issue_label (orders_issues db) =
     (if orders_null_fields db \<noteq> [] then [''Orders with NULL required fields: ''] else []) @
     (if invalid_quantities db \<noteq> [] then [''Orders with invalid quantities: ''] else []) @
     (if orders_negative_prices db \<noteq> [] then [''Orders with negative prices: ''] else [])"
  "map issue_label (foreign_keys_issues db) =
     (if orphaned_customers db \<noteq> [] then [''Orders with invalid customer_id: ''] else []) @
     (if orphaned_products db \<noteq> [] then [''Orders with invalid product_id: ''] else [])"
  "map issue_label (consistency_issues db) =
     (if price_mismatches db \<noteq> []
      then [''Order prices differ from current product prices (may be expected): ''] else []) @
     (if potential_stock_issues db \<noteq> []
      then [''Orders with quantities significantly exceeding current stock: ''] else [])"
  by (simp_all add: issues_defs)

lemma issues_lengths:
  "length (customers_issues db) \<le> 3"
  "length (products_issues db) \<le> 4"
  "length (orders_issues db) \<le> 3"
  "length (foreign_keys_issues db) \<le> 2"
  "length (consistency_issues db) \<le> 2"
  by (simp_all add: issues_defs)

lemma issue_labels_distinct:
  "distinct (map issue_label (customers_issues db))"
  "distinct (map issue_label (products_issues db))"
  "distinct (map issue_label (orders_issues db))"
  "distinct (map issue_label (foreign_keys_issues db))"
  "distinct (map issue_label (consistency_issues db))"
  unfolding issue_labels by simp_all

section \<open>When a query returns no row\<close>

lemma customers_queries_empty:
  "customers_null_fields db = [] \<longleftrightarrow>
     (\<forall>c\<in>set (customers db). c_first_name c \<noteq> None \<and> c_last_name c \<noteq> None \<and> c_email c \<noteq> None)"
  "duplicate_emails db = [] \<longleftrightarrow> distinct (map c_email (customers db))"
  "invalid_emails db = [] \<longleftrightarrow>
     (\<forall>c\<in>set (customers db). \<forall>s. c_email c = Some s \<longrightarrow> at_then_dot (c_str s))"
  unfolding customers_null_fields_def duplicate_emails_def invalid_emails_def
    map_is_Nil_conv duplicates_empty_iff
  by (auto simp: filter_empty_conv invalid_email_cond)

lemma products_queries_empty:
  "products_null_fields db = [] \<longleftrightarrow>
     (\<forall>p\<in>set (products db). p_product_name p \<noteq> None \<and> p_price p \<noteq> None)"
  "negative_prices db = [] \<longleftrightarrow>
     (\<forall>p\<in>set (products db). \<forall>v. p_price p = Some v \<longrightarrow> \<not> double_less v (Finite 0))"
  "negative_stock db = [] \<longleftrightarrow>
     (\<forall>p\<in>set (products db). \<forall>s. p_stock_quantity p = Some s \<longrightarrow> 0 \<le> s)"
  "duplicate_ids db = [] \<longleftrightarrow> distinct (map p_product_id (products db))"
  unfolding products_null_fields_def negative_prices_def negative_stock_def duplicate_ids_def
    map_is_Nil_conv duplicates_empty_iff
  by (auto simp: filter_empty_conv sql_cond_simps sql_real_lt_cond not_less)

lemma orders_queries_empty:
  "orders_null_fields db = [] \<longleftrightarrow>
     (\<forall>ord\<in>set (orders db). o_customer_id ord \<noteq> None \<and> o_product_id ord \<noteq> None \<and>
        o_quantity ord \<noteq> None \<and> o_unit_price ord \<noteq> None)"
  "invalid_quantities db = [] \<longleftrightarrow>
     (\<forall>ord\<in>set (orders db). \<forall>q. o_quantity ord = Some q \<longrightarrow> 0 < q)"
  "orders_negative_prices db = [] \<longleftrightarrow>
     (\<forall>ord\<in>set (orders db). \<forall>u. o_unit_price ord = Some u \<longrightarrow> \<not> double_less u (Finite 0))"
  unfolding orders_null_fields_def invalid_quantities_def orders_negative_prices_def
    map_is_Nil_conv
  by (auto simp: filter_empty_conv sql_cond_simps sql_real_lt_cond not_less not_le)

lemma foreign_keys_queries_empty:
  "orphaned_customers db = [] \<longleftrightarrow>
     (\<forall>ord\<in>set (orders db). \<exists>c\<in>set (customers db). \<exists>k.
        o_customer_id ord = Some k \<and> c_customer_id c = Some k)"
  "orphaned_products db = [] \<longleftrightarrow>
     (\<forall>ord\<in>set (orders db). \<exists>p\<in>set (products db). \<exists>k.
        o_product_id ord = Some k \<and> p_product_id p = Some k)"
  unfolding list_empty_iff_no_member[of "orphaned_customers db"]
    list_empty_iff_no_member[of "orphaned_products db"]
    in_orphaned_customers in_orphaned_products sql_true_sql_eq
  by blast+

lemma consistency_queries_empty:
  "price_mismatches db = [] \<longleftrightarrow>
     (\<forall>ord\<in>set (orders db). \<forall>p\<in>set (products db). \<forall>k u v d.
        o_product_id ord = Some k \<and> p_product_id p = Some k \<and>
        o_unit_price ord = Some u \<and> p_price p = Some v \<and> double_sub u v = Some d \<longrightarrow>
        \<not> double_less (round_to_double 0.01) (double_abs d))"
  "potential_stock_issues db = [] \<longleftrightarrow>
     (\<forall>ord\<in>set (orders db). \<forall>p\<in>set (products db). \<forall>k q s.
        o_product_id ord = Some k \<and> p_product_id p = Some k \<and>
        o_quantity ord = Some q \<and> p_stock_quantity p = Some s \<longrightarrow> q \<le> s + 100)"
  unfolding list_empty_iff_no_member[of "price_mismatches db"]
    list_empty_iff_no_member[of "potential_stock_issues db"]
    in_price_mismatches in_potential_stock_issues
  by (simp_all only: not_less[symmetric]) blast+

lemma issues_empty:
  "customers_issues db = [] \<longleftrightarrow>
     customers_null_fields db = [] \<and> duplicate_emails db = [] \<and> invalid_emails db = []"
  "products_issues db = [] \<longleftrightarrow>
     products_null_fields db = [] \<and> negative_prices db = [] \<and> negative_stock db = [] \<and>
     duplicate_ids db = []"
  "orders_issues db = [] \<longleftrightarrow>
     orders_null_fields db = [] \<and> invalid_quantities db = [] \<and> orders_negative_prices db = []"
  "foreign_keys_issues db = [] \<longleftrightarrow> orphaned_customers db = [] \<and> orphaned_products db = []"
  "consistency_issues db = [] \<longleftrightarrow> price_mismatches db = [] \<and> potential_stock_issues db = []"
  by (simp_all add: issues_defs)

section \<open>The sample snapshots\<close>

lemma known_doubles:
  "round_to_double 0.01 = Finite (5764607523034235 / 576460752303423488)"
  "round_to_double (1 / 10) = Finite (3602879701896397 / 36028797018963968)"
  "round_to_double 100.009 = Finite (7037507736463999 / 70368744177664)"
  "round_to_double 100.01 = Finite (7037578105208177 / 70368744177664)"
  "round_to_double 100 = Finite 100"
  by code_simp+

lemma empty_db_issues:
  "customers_issues empty_db = []"
  "products_issues empty_db = []"
  "orders_issues empty_db = []"
  "foreign_keys_issues empty_db = []"
  "consistency_issues empty_db = []"
  by code_simp+

lemma drift_db_issues:
  "customers_issues drift_db = []"
  "products_issues drift_db = []"
  "orders_issues drift_db = []"
  "foreign_keys_issues drift_db = []"
  "consistency_issues drift_db =
     [PFStr ''Order prices differ from current product prices (may be expected): ''
        (PInt 1) '' cases'']"
  by code_simp+

lemma near_db_issues:
  "customers_issues near_db = []"
  "products_issues near_db = []"
  "orders_issues near_db = []"
  "foreign_keys_issues near_db = []"
  "consistency_issues near_db = []"
  by code_simp+

lemma cent_db_issues:
  "customers_issues cent_db = []"
  "products_issues cent_db = []"
  "orders_issues cent_db = []"
  "foreign_keys_issues cent_db = []"
  "consistency_issues cent_db =
     [PFStr ''Order prices differ from current product prices (may be expected): ''
        (PInt 1) '' cases'']"
  by code_simp+

lemma penny_db_issues:
  "customers_issues penny_db = []"
  "products_issues penny_db = []"
  "orders_issues penny_db = []"
  "foreign_keys_issues penny_db = []"
  "consistency_issues penny_db = []"
  by code_simp+

lemma stock_db_issues:
  "customers_issues stock_db = []"
  "products_issues stock_db = []"
  "orders_issues stock_db = []"
  "foreign_keys_issues stock_db = []"
  "consistency_issues stock_db =
     [PFStr ''Orders with quantities significantly exceeding current stock: ''
        (PInt 1) '' cases'']"
  by code_simp+

section \<open>The overall status\<close>

text \<open>
  Claim C1, as amended. \<^verbatim>\<open>run_full_validation\<close> always returns, and what it returns is the
  dictionary \<open>results\<close> with its five sections. The overall status is the local
  \<^verbatim>\<open>all_valid\<close>: it is true exactly when the sections \<^verbatim>\<open>customers\<close>, \<^verbatim>\<open>products\<close>,
  \<^verbatim>\<open>orders\<close> and \<^verbatim>\<open>foreign_keys\<close> are all valid, it stays the same whatever stands in
  place of the \<^verbatim>\<open>consistency\<close> section, and it decides the text of the
  \<^verbatim>\<open>Overall Status\<close> line, the last but one that is printed. It is not stored: the
  returned dictionary has no entry \<^verbatim>\<open>overall_valid\<close>.
\<close>

theorem overall_status_and_of_four_sections:
  "run_full_validation db \<noteq> None \<and>
   map_option returned (run_full_validation db) = Some (results db) \<and>
   all_valid (results db) =
     Some (section_valid (validate_customers db) \<and> section_valid (validate_products db) \<and>
           section_valid (validate_orders db) \<and> section_valid (validate_foreign_keys db)) \<and>
   all_valid (PDict [(''customers'', validate_customers db),
                     (''products'', validate_products db),
                     (''orders'', validate_orders db),
                     (''foreign_keys'', validate_foreign_keys db),
                     (''consistency'', sec)]) = all_valid (results db) \<and>
   map_option (\<lambda>r. last (butlast (printed r))) (run_full_validation db) =
     Some (PFStr ''Overall Status: ''
             (PStr (if all_valid (results db) = Some True
                    then check_mark @ '' All Validations Passed''
                    else ballot_x @ '' Some Issues Found'')) '''') \<and>
   item (results db) ''overall_valid'' = None"
proof -
  have total: "run_full_validation db \<noteq> None"
    by (simp add: run_full_validation_eq)
  have ret: "map_option returned (run_full_validation db) = Some (results db)"
    by (simp add: run_full_validation_eq)
  have conj4: "all_valid (results db) =
     Some (section_valid (validate_customers db) \<and> section_valid (validate_products db) \<and>
           section_valid (validate_orders db) \<and> section_valid (validate_foreign_keys db))"
    by (simp add: all_valid_results section_valid_simps)
  have frame: "all_valid (PDict [(''customers'', validate_customers db),
                     (''products'', validate_products db),
                     (''orders'', validate_orders db),
                     (''foreign_keys'', validate_foreign_keys db),
                     (''consistency'', sec)]) = all_valid (results db)"
    unfolding results_def by (rule all_valid_ignores_consistency)
  have line: "map_option (\<lambda>r. last (butlast (printed r))) (run_full_validation db) =
     Some (PFStr ''Overall Status: ''
             (PStr (if all_valid (results db) = Some True
                    then check_mark @ '' All Validations Passed''
                    else ballot_x @ '' Some Issues Found'')) '''')"
    by (simp add: run_full_validation_eq all_valid_results butlast_append)
  have nokey: "item (results db) ''overall_valid'' = None"
    by (simp add: results_def)
  from total ret conj4 frame line nokey show ?thesis by blast
qed

theorem overall_status_and_of_four_sections_witness:
  "all_valid (results drift_db) = Some True \<and>
   \<not> section_valid (validate_data_consistency drift_db) \<and>
   all_valid (PDict [(''customers'', validate_customers drift_db),
                     (''products'', validate_products drift_db),
                     (''orders'', validate_orders drift_db),
                     (''foreign_keys'', validate_foreign_keys drift_db),
                     (''consistency'', PNone)]) = Some True"
  using overall_status_and_of_four_sections [of drift_db PNone]
  by (simp add: section_valid_simps drift_db_issues)

text \<open>
  Claim C1 as stated asks for an \<^verbatim>\<open>overall_valid\<close> boolean inside the returned report.
  On three empty tables the run returns a report, and looking that key up in it fails.
\<close>

theorem returned_report_has_no_overall_valid:
  "map_option (\<lambda>r. item (returned r) ''overall_valid'') (run_full_validation empty_db) = Some None"
  by (simp add: run_full_validation_eq results_def)

section \<open>The email format check\<close>

lemma no_null_email_row: "PTuple [i, PNone] \<notin> set (invalid_emails db)"
  unfolding in_invalid_emails by auto

text \<open>
  Claim C6, as amended. The query of the format check is \<^verbatim>\<open>email NOT LIKE '%@%.%'\<close>. On an
  email that is present, \<^verbatim>\<open>LIKE '%@%.%'\<close> holds exactly when the text up to its first NUL
  character contains an \<^verbatim>\<open>@\<close> with a \<^verbatim>\<open>.\<close> somewhere after it; for an email without a NUL
  character that is the whole value. A customer whose email fails this test is a row of
  \<^verbatim>\<open>invalid_emails\<close>, the issue built from these rows is among the issues of the customers
  section of the returned report, and that section is not valid. A row of
  \<^verbatim>\<open>invalid_emails\<close> never carries an email that passes. It never carries a \<^verbatim>\<open>NULL\<close> email
  either: a customer without an email is a row of the \<^verbatim>\<open>NULL\<close> required fields instead.
\<close>

theorem email_format_check:
  "sql_like (Some s) ''%@%.%'' = Some (at_then_dot (c_str s)) \<and>
   (CHR 0x00 \<notin> set s \<longrightarrow> sql_like (Some s) ''%@%.%'' = Some (at_then_dot s)) \<and>
   (c \<in> set (customers db) \<and> c_email c = Some s \<and> \<not> at_then_dot (c_str s) \<longrightarrow>
      PTuple [py_int (c_customer_id c), PStr s] \<in> set (invalid_emails db) \<and>
      PFStr ''Invalid email format: '' (PList (invalid_emails db)) ''''
        \<in> set (customers_issues db) \<and>
      item (validate_customers db) ''valid'' = Some (PBool False)) \<and>
   item (validate_customers db) ''issues'' = Some (PList (customers_issues db)) \<and>
   item (results db) ''customers'' = Some (validate_customers db) \<and>
   map_option returned (run_full_validation db) = Some (results db) \<and>
   (PTuple [i, PStr s] \<in> set (invalid_emails db) \<longrightarrow> \<not> at_then_dot (c_str s)) \<and>
   PTuple [i, PNone] \<notin> set (invalid_emails db) \<and>
   (c \<in> set (customers db) \<and> c_email c = None \<longrightarrow>
      PTuple [py_int (c_customer_id c), py_str (c_first_name c), py_str (c_last_name c), PNone]
        \<in> set (customers_null_fields db) \<and>
      PFStr ''Customers with NULL required fields: '' (PList (customers_null_fields db)) ''''
        \<in> set (customers_issues db))"
proof -
  have like: "sql_like (Some s) ''%@%.%'' = Some (at_then_dot (c_str s))"
    by (rule sql_like_email_pattern)
  have plain: "sql_like (Some s) ''%@%.%'' = Some (at_then_dot s)" if "CHR 0x00 \<notin> set s"
    using that like by (simp add: c_str_without_nul)
  have flagged: "PTuple [py_int (c_customer_id c), PStr s] \<in> set (invalid_emails db) \<and>
      PFStr ''Invalid email format: '' (PList (invalid_emails db)) ''''
        \<in> set (customers_issues db) \<and>
      item (validate_customers db) ''valid'' = Some (PBool False)"
    if h: "c \<in> set (customers db) \<and> c_email c = Some s \<and> \<not> at_then_dot (c_str s)"
  proof -
    from h have row: "PTuple [py_int (c_customer_id c), PStr s] \<in> set (invalid_emails db)"
      unfolding in_invalid_emails by blast
    then have "invalid_emails db \<noteq> []" by auto
    then have issue: "PFStr ''Invalid email format: '' (PList (invalid_emails db)) ''''
        \<in> set (customers_issues db)"
      by (simp add: in_customers_issues)
    then have "customers_issues db \<noteq> []" by auto
    then have "item (validate_customers db) ''valid'' = Some (PBool False)"
      by (simp add: section_items)
    with row issue show ?thesis by blast
  qed
  have sect: "item (validate_customers db) ''issues'' = Some (PList (customers_issues db))"
    by (simp add: section_items)
  have report: "item (results db) ''customers'' = Some (validate_customers db)"
    by (simp add: results_items)
  have run: "map_option returned (run_full_validation db) = Some (results db)"
    by (simp add: run_full_validation_eq)
  have passes: "\<not> at_then_dot (c_str s)" if "PTuple [i, PStr s] \<in> set (invalid_emails db)"
    using that unfolding in_invalid_emails by auto
  have null_row: "PTuple [i, PNone] \<notin> set (invalid_emails db)"
    by (rule no_null_email_row)
  have null_reported:
    "PTuple [py_int (c_customer_id c), py_str (c_first_name c), py_str (c_last_name c), PNone]
        \<in> set (customers_null_fields db) \<and>
      PFStr ''Customers with NULL required fields: '' (PList (customers_null_fields db)) ''''
        \<in> set (customers_issues db)"
    if h: "c \<in> set (customers db) \<and> c_email c = None"
  proof -
    from h have row: "PTuple [py_int (c_customer_id c), py_str (c_first_name c),
        py_str (c_last_name c), PNone] \<in> set (customers_null_fields db)"
      unfolding customers_null_fields_def by force
    then have "customers_null_fields db \<noteq> []" by auto
    with row show ?thesis by (simp add: in_customers_issues)
  qed
  from like plain flagged sect report run passes null_row null_reported
  show ?thesis by blast
qed

theorem email_format_check_witness:
  "\<not> at_then_dot ''ann.lee.org'' \<and> at_then_dot ''bob@x.org'' \<and>
   PTuple [PInt 1, PStr ''ann.lee.org''] \<in> set (invalid_emails bad_email_db) \<and>
   PFStr ''Invalid email format: '' (PList (invalid_emails bad_email_db)) ''''
     \<in> set (customers_issues bad_email_db) \<and>
   item (validate_customers bad_email_db) ''valid'' = Some (PBool False) \<and>
   PTuple [PInt 2, PStr ''bob@x.org''] \<notin> set (invalid_emails bad_email_db) \<and>
   PTuple [PInt 1, PStr ''Ann'', PStr ''Lee'', PNone] \<in> set (customers_null_fields null_email_db)"
proof -
  let ?ann = "\<lparr>c_customer_id = Some 1, c_first_name = Some ''Ann'',
               c_last_name = Some ''Lee'', c_email = Some ''ann.lee.org''\<rparr>"
  let ?nobody = "\<lparr>c_customer_id = Some 1, c_first_name = Some ''Ann'',
               c_last_name = Some ''Lee'', c_email = None\<rparr>"
  have a: "\<not> at_then_dot ''ann.lee.org''" "c_str ''ann.lee.org'' = ''ann.lee.org''"
    using email_format_check [of "''ann.lee.org''" ?ann bad_email_db "PInt 1"]
    by (simp_all add: sql_like_def c_str_def)
  have b: "at_then_dot ''bob@x.org''" "c_str ''bob@x.org'' = ''bob@x.org''"
    using email_format_check [of "''bob@x.org''" ?ann bad_email_db "PInt 2"]
    by (simp_all add: sql_like_def c_str_def)
  have c: "?ann \<in> set (customers bad_email_db) \<and> c_email ?ann = Some ''ann.lee.org''"
    by (simp add: bad_email_db_def)
  have d: "?nobody \<in> set (customers null_email_db) \<and> c_email ?nobody = None"
    by (simp add: null_email_db_def)
  from a b c d email_format_check [of "''ann.lee.org''" ?ann bad_email_db "PInt 1"]
    email_format_check [of "''bob@x.org''" ?ann bad_email_db "PInt 2"]
    email_format_check [of "''x''" ?nobody null_email_db "PInt 1"]
  show ?thesis by simp
qed

text \<open>
  Claim C6 as stated lets every value with an \<^verbatim>\<open>@\<close> followed by a \<^verbatim>\<open>.\<close> pass. The email
  of \<open>nul_email_db\<close> is the letter \<^verbatim>\<open>a\<close>, a NUL character and \<^verbatim>\<open>@b.c\<close>: it has an \<^verbatim>\<open>@\<close>
  followed by a \<^verbatim>\<open>.\<close>, and the validator flags it, since \<^verbatim>\<open>LIKE\<close> sees the text \<^verbatim>\<open>a\<close> only.
\<close>

theorem email_with_nul_flagged:
  "at_then_dot (CHR ''a'' # CHR 0x00 # ''@b.c'') \<and>
   invalid_emails nul_email_db = [PTuple [PInt 1, PStr (CHR ''a'' # CHR 0x00 # ''@b.c'')]] \<and>
   validate_customers nul_email_db =
     PDict [(''table'', PStr ''customers''), (''valid'', PBool False),
            (''issues'', PList [PFStr ''Invalid email format: ''
               (PList [PTuple [PInt 1, PStr (CHR ''a'' # CHR 0x00 # ''@b.c'')]]) ''''])]"
proof -
  have "sqlite_like ''%@%.%'' (CHR ''a'' # CHR 0x00 # ''@b.c'')"
    by simp
  then have "at_then_dot (CHR ''a'' # CHR 0x00 # ''@b.c'')"
    by (simp only: like_email_pattern at_then_dot_def)
  moreover have "invalid_emails nul_email_db =
      [PTuple [PInt 1, PStr (CHR ''a'' # CHR 0x00 # ''@b.c'')]]"
    by code_simp
  moreover have "validate_customers nul_email_db =
     PDict [(''table'', PStr ''customers''), (''valid'', PBool False),
            (''issues'', PList [PFStr ''Invalid email format: ''
               (PList [PTuple [PInt 1, PStr (CHR ''a'' # CHR 0x00 # ''@b.c'')]]) ''''])]"
    by code_simp
  ultimately show ?thesis by blast
qed

section \<open>The advisory checks\<close>

lemma drift_over_tolerance_iff:
  "drift_over_tolerance u v \<longleftrightarrow>
     (\<exists>d. double_sub u v = Some d \<and> double_less (round_to_double 0.01) (double_abs d))"
  by (cases "double_sub u v") (simp_all add: drift_over_tolerance_def)

lemma drift_over_tolerance_finite:
  "drift_over_tolerance (Finite a) (Finite b) \<longleftrightarrow>
     double_less (round_to_double 0.01) (double_abs (round_to_double (a - b)))"
  by (simp add: drift_over_tolerance_def)

lemma drift_examples:
  "\<not> drift_over_tolerance (Finite 100) (round_to_double 100.009)"
  "drift_over_tolerance (Finite 100) (round_to_double 100.02)"
  "drift_over_tolerance (Finite 100) (round_to_double 100.01)"
  "\<not> drift_over_tolerance (round_to_double 0.01) (Finite 0)"
  "drift_over_tolerance (round_to_double 0.3) (round_to_double 0.29)"
  "\<not> drift_over_tolerance (round_to_double 0.03) (round_to_double 0.02)"
  by code_simp+

text \<open>
  Claim C4, as amended. Take an order and a product with the same product id, both with a
  price. The row of this pair is among the fetched \<^verbatim>\<open>price_mismatches\<close> exactly when
  \<^verbatim>\<open>ABS(unit_price - price)\<close>, computed in double precision, is greater than the double
  nearest to 0.01. When it is, the issue that counts these rows is among the issues of the
  consistency section of the returned report, and that section is not valid. The overall
  status does not read the consistency section: it is the same whatever that section is.
\<close>

theorem price_drift_check:
  assumes "ord \<in> set (orders db)" and "p \<in> set (products db)"
    and "o_product_id ord = Some k" and "p_product_id p = Some k"
    and "o_unit_price ord = Some u" and "p_price p = Some v"
  shows "(PTuple [py_int (o_order_id ord), PInt k, PFloat u, PFloat v]
            \<in> set (price_mismatches db) \<longleftrightarrow> drift_over_tolerance u v) \<and>
         (drift_over_tolerance u v \<longrightarrow>
            PFStr ''Order prices differ from current product prices (may be expected): ''
              (PInt (int (length (price_mismatches db)))) '' cases''
              \<in> set (consistency_issues db) \<and>
            item (validate_data_consistency db) ''valid'' = Some (PBool False)) \<and>
         item (validate_data_consistency db) ''issues'' = Some (PList (consistency_issues db)) \<and>
         item (results db) ''consistency'' = Some (validate_data_consistency db) \<and>
         map_option returned (run_full_validation db) = Some (results db) \<and>
         all_valid (PDict [(''customers'', validate_customers db),
                           (''products'', validate_products db),
                           (''orders'', validate_orders db),
                           (''foreign_keys'', validate_foreign_keys db),
                           (''consistency'', sec)]) = all_valid (results db)"
proof -
  let ?row = "PTuple [py_int (o_order_id ord), PInt k, PFloat u, PFloat v]"
  have iff: "?row \<in> set (price_mismatches db) \<longleftrightarrow> drift_over_tolerance u v"
  proof
    assume "?row \<in> set (price_mismatches db)"
    then show "drift_over_tolerance u v"
      unfolding in_price_mismatches drift_over_tolerance_iff by auto
  next
    assume "drift_over_tolerance u v"
    with assms show "?row \<in> set (price_mismatches db)"
      unfolding in_price_mismatches drift_over_tolerance_iff by blast
  qed
  have issue: "PFStr ''Order prices differ from current product prices (may be expected): ''
              (PInt (int (length (price_mismatches db)))) '' cases''
              \<in> set (consistency_issues db) \<and>
            item (validate_data_consistency db) ''valid'' = Some (PBool False)"
    if "drift_over_tolerance u v"
  proof -
    from that iff have "price_mismatches db \<noteq> []" by auto
    then have msg: "PFStr ''Order prices differ from current product prices (may be expected): ''
              (PInt (int (length (price_mismatches db)))) '' cases''
              \<in> set (consistency_issues db)"
      by (simp add: in_consistency_issues)
    then have "consistency_issues db \<noteq> []" by auto
    then have "item (validate_data_consistency db) ''valid'' = Some (PBool False)"
      by (simp add: section_items)
    with msg show ?thesis by blast
  qed
  have sect: "item (validate_data_consistency db) ''issues'' = Some (PList (consistency_issues db))"
    by (simp add: section_items)
  have report: "item (results db) ''consistency'' = Some (validate_data_consistency db)"
    by (simp add: results_items)
  have run: "map_option returned (run_full_validation db) = Some (results db)"
    by (simp add: run_full_validation_eq)
  have frame: "all_valid (PDict [(''customers'', validate_customers db),
                           (''products'', validate_products db),
                           (''orders'', validate_orders db),
                           (''foreign_keys'', validate_foreign_keys db),
                           (''consistency'', sec)]) = all_valid (results db)"
    unfolding results_def by (rule all_valid_ignores_consistency)
  from iff issue sect report run frame show ?thesis by blast
qed

theorem price_drift_check_witness:
  "PTuple [PInt 1, PInt 101, PFloat (Finite 100), PFloat (round_to_double 100.009)]
     \<notin> set (price_mismatches near_db) \<and>
   PTuple [PInt 1, PInt 101, PFloat (Finite 100), PFloat (round_to_double 100.02)]
     \<in> set (price_mismatches drift_db) \<and>
   PFStr ''Order prices differ from current product prices (may be expected): ''
     (PInt (int (length (price_mismatches drift_db)))) '' cases''
     \<in> set (consistency_issues drift_db) \<and>
   item (validate_data_consistency drift_db) ''valid'' = Some (PBool False) \<and>
   all_valid (results drift_db) = Some True \<and>
   all_valid (results near_db) = Some True"
proof -
  let ?ord = "\<lparr>o_order_id = Some 1, o_customer_id = Some 1, o_product_id = Some 101,
               o_quantity = Some 1, o_unit_price = Some (Finite 100)\<rparr>"
  let ?near = "\<lparr>p_product_id = Some 101, p_product_name = Some ''Desk'',
                p_price = Some (round_to_double 100.009), p_stock_quantity = Some 5\<rparr>"
  let ?far = "\<lparr>p_product_id = Some 101, p_product_name = Some ''Desk'',
               p_price = Some (round_to_double 100.02), p_stock_quantity = Some 5\<rparr>"
  have "PTuple [PInt 1, PInt 101, PFloat (Finite 100), PFloat (round_to_double 100.009)]
      \<notin> set (price_mismatches near_db)"
    using price_drift_check [of ?ord near_db ?near 101 "Finite 100" "round_to_double 100.009" PNone]
      drift_examples(1)
    by (simp add: near_db_def)
  moreover have "PTuple [PInt 1, PInt 101, PFloat (Finite 100), PFloat (round_to_double 100.02)]
      \<in> set (price_mismatches drift_db) \<and>
    PFStr ''Order prices differ from current product prices (may be expected): ''
     (PInt (int (length (price_mismatches drift_db)))) '' cases''
     \<in> set (consistency_issues drift_db) \<and>
    item (validate_data_consistency drift_db) ''valid'' = Some (PBool False)"
    using price_drift_check [of ?ord drift_db ?far 101 "Finite 100" "round_to_double 100.02" PNone]
      drift_examples(2)
    by (simp add: drift_db_def)
  moreover have "all_valid (results drift_db) = Some True"
    by (simp add: all_valid_results drift_db_issues)
  moreover have "all_valid (results near_db) = Some True"
    by (simp add: all_valid_results near_db_issues)
  ultimately show ?thesis by blast
qed

text \<open>
  Claim C4 as stated compares the difference of the two prices with 0.01. The prices are
  doubles and so is the difference the query computes. In \<open>cent_db\<close> the order was sold
  at 100.00 and the product costs 100.01: the difference of the two amounts is 0.01, not
  more, and the row is fetched. In \<open>penny_db\<close> the order was sold at the double nearest
  to 0.01 and the product costs 0: the difference of the two stored numbers is greater
  than 0.01, and no row is fetched.
\<close>

theorem price_drift_not_decimal:
  "\<bar>(100.01 :: rat) - 100\<bar> \<le> 0.01 \<and>
   price_mismatches cent_db =
     [PTuple [PInt 1, PInt 101, PFloat (Finite 100), PFloat (round_to_double 100.01)]] \<and>
   round_to_double 0.01 = Finite (5764607523034235 / 576460752303423488) \<and>
   (0.01 :: rat) < \<bar>5764607523034235 / 576460752303423488 - 0\<bar> \<and>
   price_mismatches penny_db = []"
proof -
  have "\<bar>(100.01 :: rat) - 100\<bar> \<le> 0.01"
    by simp
  moreover have "price_mismatches cent_db =
     [PTuple [PInt 1, PInt 101, PFloat (Finite 100), PFloat (round_to_double 100.01)]]"
    by code_simp
  moreover have "round_to_double 0.01 = Finite (5764607523034235 / 576460752303423488)"
    by (rule known_doubles)
  moreover have "(0.01 :: rat) < \<bar>5764607523034235 / 576460752303423488 - 0\<bar>"
    by simp
  moreover have "price_mismatches penny_db = []"
    by code_simp
  ultimately show ?thesis by blast
qed

text \<open>
  Claim C7. Take an order and a product with the same product id, the order with a
  quantity and the product with a stock quantity. The row of this pair is among the
  fetched \<^verbatim>\<open>potential_stock_issues\<close> exactly when the quantity is greater than the stock
  quantity plus 100: a quantity of stock plus 100 is not flagged, stock plus 101 is. When
  a pair is flagged, the issue that counts these rows is among the issues of the
  consistency section of the returned report and that section is not valid; the overall
  status is the same whatever the consistency section is.
\<close>

theorem stock_plausibility_check:
  assumes "ord \<in> set (orders db)" and "p \<in> set (products db)"
    and "o_product_id ord = Some k" and "p_product_id p = Some k"
    and "o_quantity ord = Some q" and "p_stock_quantity p = Some s"
  shows "(PTuple [py_int (o_order_id ord), PInt k, PInt q, PInt s]
            \<in> set (potential_stock_issues db) \<longleftrightarrow> q > s + 100) \<and>
         (q = s + 100 \<longrightarrow> PTuple [py_int (o_order_id ord), PInt k, PInt q, PInt s]
            \<notin> set (potential_stock_issues db)) \<and>
         (q = s + 101 \<longrightarrow> PTuple [py_int (o_order_id ord), PInt k, PInt q, PInt s]
            \<in> set (potential_stock_issues db)) \<and>
         (q > s + 100 \<longrightarrow>
            PFStr ''Orders with quantities significantly exceeding current stock: ''
              (PInt (int (length (potential_stock_issues db)))) '' cases''
              \<in> set (consistency_issues db)) \<and>
         (q > s + 100 \<longrightarrow>
            item (validate_data_consistency db) ''valid'' = Some (PBool False)) \<and>
         item (validate_data_consistency db) ''issues'' = Some (PList (consistency_issues db)) \<and>
         item (results db) ''consistency'' = Some (validate_data_consistency db) \<and>
         map_option returned (run_full_validation db) = Some (results db) \<and>
         all_valid (PDict [(''customers'', validate_customers db),
                           (''products'', validate_products db),
                           (''orders'', validate_orders db),
                           (''foreign_keys'', validate_foreign_keys db),
                           (''consistency'', sec)]) = all_valid (results db)"
proof -
  let ?row = "PTuple [py_int (o_order_id ord), PInt k, PInt q, PInt s]"
  have iff: "?row \<in> set (potential_stock_issues db) \<longleftrightarrow> q > s + 100"
  proof
    assume "?row \<in> set (potential_stock_issues db)"
    then show "q > s + 100"
      unfolding in_potential_stock_issues by auto
  next
    assume "q > s + 100"
    with assms show "?row \<in> set (potential_stock_issues db)"
      unfolding in_potential_stock_issues by blast
  qed
  have at_buffer: "?row \<notin> set (potential_stock_issues db)" if "q = s + 100"
    using that iff by simp
  have past_buffer: "?row \<in> set (potential_stock_issues db)" if "q = s + 101"
    using that iff by simp
  have issue: "PFStr ''Orders with quantities significantly exceeding current stock: ''
              (PInt (int (length (potential_stock_issues db)))) '' cases''
              \<in> set (consistency_issues db)" if "q > s + 100"
  proof -
    from that iff have "potential_stock_issues db \<noteq> []" by auto
    then show ?thesis by (simp add: in_consistency_issues)
  qed
  have frame: "all_valid (PDict [(''customers'', validate_customers db),
                           (''products'', validate_products db),
                           (''orders'', validate_orders db),
                           (''foreign_keys'', validate_foreign_keys db),
                           (''consistency'', sec)]) = all_valid (results db)"
    unfolding results_def by (rule all_valid_ignores_consistency)
  have invalid: "item (validate_data_consistency db) ''valid'' = Some (PBool False)"
    if "q > s + 100"
  proof -
    from issue [OF that] have "consistency_issues db \<noteq> []" by auto
    then show ?thesis by (simp add: section_items)
  qed
  have sect: "item (validate_data_consistency db) ''issues'' = Some (PList (consistency_issues db))"
    by (simp add: section_items)
  have report: "item (results db) ''consistency'' = Some (validate_data_consistency db)"
    by (simp add: results_items)
  have run: "map_option returned (run_full_validation db) = Some (results db)"
    by (simp add: run_full_validation_eq)
  from iff at_buffer past_buffer issue invalid sect report run frame show ?thesis by blast
qed

theorem stock_plausibility_check_witness:
  "PTuple [PInt 1, PInt 101, PInt 105, PInt 5] \<notin> set (potential_stock_issues stock_db) \<and>
   PTuple [PInt 2, PInt 101, PInt 106, PInt 5] \<in> set (potential_stock_issues stock_db) \<and>
   PFStr ''Orders with quantities significantly exceeding current stock: ''
     (PInt (int (length (potential_stock_issues stock_db)))) '' cases''
     \<in> set (consistency_issues stock_db) \<and>
   item (validate_data_consistency stock_db) ''valid'' = Some (PBool False) \<and>
   all_valid (results stock_db) = Some True"
proof -
  let ?o1 = "\<lparr>o_order_id = Some 1, o_customer_id = Some 1, o_product_id = Some 101,
              o_quantity = Some 105, o_unit_price = Some (Finite 100)\<rparr>"
  let ?o2 = "\<lparr>o_order_id = Some 2, o_customer_id = Some 1, o_product_id = Some 101,
              o_quantity = Some 106, o_unit_price = Some (Finite 100)\<rparr>"
  let ?p = "\<lparr>p_product_id = Some 101, p_product_name = Some ''Desk'',
             p_price = Some (Finite 100), p_stock_quantity = Some 5\<rparr>"
  have "PTuple [PInt 1, PInt 101, PInt 105, PInt 5] \<notin> set (potential_stock_issues stock_db)"
    using stock_plausibility_check [of ?o1 stock_db ?p 101 105 5 PNone]
    by (simp add: stock_db_def)
  moreover have "PTuple [PInt 2, PInt 101, PInt 106, PInt 5]
      \<in> set (potential_stock_issues stock_db) \<and>
    PFStr ''Orders with quantities significantly exceeding current stock: ''
     (PInt (int (length (potential_stock_issues stock_db)))) '' cases''
     \<in> set (consistency_issues stock_db) \<and>
    item (validate_data_consistency stock_db) ''valid'' = Some (PBool False)"
    using stock_plausibility_check [of ?o2 stock_db ?p 101 106 5 PNone]
    by (simp add: stock_db_def)
  moreover have "all_valid (results stock_db) = Some True"
    by (simp add: all_valid_results stock_db_issues)
  ultimately show ?thesis by blast
qed

section \<open>Referential integrity\<close>



text \<open>
  Claim C9. An order whose \<^verbatim>\<open>customer_id\<close> is \<^verbatim>\<open>NULL\<close> is reported twice. Its row is among
  the \<^verbatim>\<open>null_fields\<close> of \<^verbatim>\<open>validate_orders\<close>, the issue built from them is among the
  issues of the orders section of the returned report, and that section is not valid. Its
  row is also among the \<^verbatim>\<open>orphaned_customers\<close> of \<^verbatim>\<open>validate_foreign_keys\<close>, the issue
  built from them is among the issues of the foreign-keys section, and that section is not
  valid. The same holds for a \<^verbatim>\<open>NULL\<close> \<^verbatim>\<open>product_id\<close> and \<^verbatim>\<open>orphaned_products\<close>.
\<close>

theorem null_foreign_key_reported_twice:
  assumes "ord \<in> set (orders db)"
  shows "(o_customer_id ord = None \<longrightarrow>
            PTuple [py_int (o_order_id ord), PNone, py_int (o_product_id ord),
                    py_int (o_quantity ord), py_float (o_unit_price ord)]
              \<in> set (orders_null_fields db) \<and>
            PFStr ''Orders with NULL required fields: '' (PList (orders_null_fields db)) ''''
              \<in> set (orders_issues db) \<and>
            PTuple [py_int (o_order_id ord), PNone] \<in> set (orphaned_customers db) \<and>
            PFStr ''Orders with invalid customer_id: '' (PList (orphaned_customers db)) ''''
              \<in> set (foreign_keys_issues db)) \<and>
         (o_product_id ord = None \<longrightarrow>
            PTuple [py_int (o_order_id ord), py_int (o_customer_id ord), PNone,
                    py_int (o_quantity ord), py_float (o_unit_price ord)]
              \<in> set (orders_null_fields db) \<and>
            PFStr ''Orders with NULL required fields: '' (PList (orders_null_fields db)) ''''
              \<in> set (orders_issues db) \<and>
            PTuple [py_int (o_order_id ord), PNone] \<in> set (orphaned_products db) \<and>
            PFStr ''Orders with invalid product_id: '' (PList (orphaned_products db)) ''''
              \<in> set (foreign_keys_issues db)) \<and>
         (o_customer_id ord = None \<or> o_product_id ord = None \<longrightarrow>
            item (validate_orders db) ''valid'' = Some (PBool False) \<and>
            item (validate_foreign_keys db) ''valid'' = Some (PBool False)) \<and>
         item (validate_orders db) ''issues'' = Some (PList (orders_issues db)) \<and>
         item (validate_foreign_keys db) ''issues'' = Some (PList (foreign_keys_issues db)) \<and>
         item (results db) ''orders'' = Some (validate_orders db) \<and>
         item (results db) ''foreign_keys'' = Some (validate_foreign_keys db) \<and>
         map_option returned (run_full_validation db) = Some (results db)"
proof -
  have twice: "(o_customer_id ord = None \<longrightarrow>
            PTuple [py_int (o_order_id ord), PNone, py_int (o_product_id ord),
                    py_int (o_quantity ord), py_float (o_unit_price ord)]
              \<in> set (orders_null_fields db) \<and>
            PFStr ''Orders with NULL required fields: '' (PList (orders_null_fields db)) ''''
              \<in> set (orders_issues db) \<and>
            PTuple [py_int (o_order_id ord), PNone] \<in> set (orphaned_customers db) \<and>
            PFStr ''Orders with invalid customer_id: '' (PList (orphaned_customers db)) ''''
              \<in> set (foreign_keys_issues db)) \<and>
         (o_product_id ord = None \<longrightarrow>
            PTuple [py_int (o_order_id ord), py_int (o_customer_id ord), PNone,
                    py_int (o_quantity ord), py_float (o_unit_price ord)]
              \<in> set (orders_null_fields db) \<and>
            PFStr ''Orders with NULL required fields: '' (PList (orders_null_fields db)) ''''
              \<in> set (orders_issues db) \<and>
            PTuple [py_int (o_order_id ord), PNone] \<in> set (orphaned_products db) \<and>
            PFStr ''Orders with invalid product_id: '' (PList (orphaned_products db)) ''''
              \<in> set (foreign_keys_issues db))"
  proof (intro conjI impI)
  assume null: "o_customer_id ord = None"
  with assms show row: "PTuple [py_int (o_order_id ord), PNone, py_int (o_product_id ord),
                    py_int (o_quantity ord), py_float (o_unit_price ord)]
              \<in> set (orders_null_fields db)"
    unfolding orders_null_fields_def by force
  then have "orders_null_fields db \<noteq> []" by auto
  then show "PFStr ''Orders with NULL required fields: '' (PList (orders_null_fields db)) ''''
              \<in> set (orders_issues db)"
    by (simp add: in_orders_issues)
  from null have "\<forall>c\<in>set (customers db).
      \<not> sql_true (sql_eq (o_customer_id ord) (c_customer_id c))"
    by (simp add: sql_true_sql_eq)
  with assms null show orphan: "PTuple [py_int (o_order_id ord), PNone]
      \<in> set (orphaned_customers db)"
    unfolding in_orphaned_customers by force
  then have "orphaned_customers db \<noteq> []" by auto
  then show "PFStr ''Orders with invalid customer_id: '' (PList (orphaned_customers db)) ''''
              \<in> set (foreign_keys_issues db)"
    by (simp add: in_foreign_keys_issues)
next
  assume null: "o_product_id ord = None"
  with assms show row: "PTuple [py_int (o_order_id ord), py_int (o_customer_id ord), PNone,
                    py_int (o_quantity ord), py_float (o_unit_price ord)]
              \<in> set (orders_null_fields db)"
    unfolding orders_null_fields_def by force
  then have "orders_null_fields db \<noteq> []" by auto
  then show "PFStr ''Orders with NULL required fields: '' (PList (orders_null_fields db)) ''''
              \<in> set (orders_issues db)"
    by (simp add: in_orders_issues)
  from null have "\<forall>p\<in>set (products db).
      \<not> sql_true (sql_eq (o_product_id ord) (p_product_id p))"
    by (simp add: sql_true_sql_eq)
  with assms null show orphan: "PTuple [py_int (o_order_id ord), PNone]
      \<in> set (orphaned_products db)"
    unfolding in_orphaned_products by force
  then have "orphaned_products db \<noteq> []" by auto
  then show "PFStr ''Orders with invalid product_id: '' (PList (orphaned_products db)) ''''
              \<in> set (foreign_keys_issues db)"
    by (simp add: in_foreign_keys_issues)
qed
  have invalid: "item (validate_orders db) ''valid'' = Some (PBool False) \<and>
            item (validate_foreign_keys db) ''valid'' = Some (PBool False)"
    if "o_customer_id ord = None \<or> o_product_id ord = None"
  proof -
    from that twice have "orders_issues db \<noteq> []" "foreign_keys_issues db \<noteq> []"
      by auto
    then show ?thesis by (simp add: section_items)
  qed
  have links: "item (validate_orders db) ''issues'' = Some (PList (orders_issues db))"
    "item (validate_foreign_keys db) ''issues'' = Some (PList (foreign_keys_issues db))"
    "item (results db) ''orders'' = Some (validate_orders db)"
    "item (results db) ''foreign_keys'' = Some (validate_foreign_keys db)"
    "map_option returned (run_full_validation db) = Some (results db)"
    by (simp_all add: section_items results_items run_full_validation_eq)
  from twice invalid links show ?thesis by blast
qed

theorem null_foreign_key_reported_twice_witness:
  "PTuple [PInt 1, PNone, PInt 101, PInt 1, PFloat (Finite 100)] \<in> set (orders_null_fields null_key_db) \<and>
   PTuple [PInt 1, PNone] \<in> set (orphaned_customers null_key_db) \<and>
   PTuple [PInt 2, PInt 1, PNone, PInt 1, PFloat (Finite 100)] \<in> set (orders_null_fields null_key_db) \<and>
   PTuple [PInt 2, PNone] \<in> set (orphaned_products null_key_db) \<and>
   PFStr ''Orders with NULL required fields: '' (PList (orders_null_fields null_key_db)) ''''
     \<in> set (orders_issues null_key_db) \<and>
   PFStr ''Orders with invalid customer_id: '' (PList (orphaned_customers null_key_db)) ''''
     \<in> set (foreign_keys_issues null_key_db) \<and>
   PFStr ''Orders with invalid product_id: '' (PList (orphaned_products null_key_db)) ''''
     \<in> set (foreign_keys_issues null_key_db) \<and>
   item (validate_orders null_key_db) ''valid'' = Some (PBool False) \<and>
   item (validate_foreign_keys null_key_db) ''valid'' = Some (PBool False)"
proof -
  let ?o1 = "\<lparr>o_order_id = Some 1, o_customer_id = None, o_product_id = Some 101,
              o_quantity = Some 1, o_unit_price = Some (Finite 100)\<rparr>"
  let ?o2 = "\<lparr>o_order_id = Some 2, o_customer_id = Some 1, o_product_id = None,
              o_quantity = Some 1, o_unit_price = Some (Finite 100)\<rparr>"
  show ?thesis
    using null_foreign_key_reported_twice [of ?o1 null_key_db]
      null_foreign_key_reported_twice [of ?o2 null_key_db]
    by (simp add: null_key_db_def)
qed

section \<open>The shape of a section\<close>

text \<open>
  Claim C10. Every rule of a section contributes at most one issue, whatever the number
  of offending rows: the labels of the issues of a section are pairwise different, and a
  section has at most as many issues as it has rules (3 for customers, 4 for products, 3
  for orders, 2 for foreign keys, 2 for consistency). The \<^verbatim>\<open>valid\<close> entry of a section is
  true exactly when the list under its \<^verbatim>\<open>issues\<close> entry is empty.
\<close>

theorem one_issue_per_rule:
  "(length (customers_issues db) \<le> 3 \<and> distinct (map issue_label (customers_issues db)) \<and>
    item (validate_customers db) ''issues'' = Some (PList (customers_issues db)) \<and>
    item (validate_customers db) ''valid'' = Some (PBool (customers_issues db = []))) \<and>
   (length (products_issues db) \<le> 4 \<and> distinct (map issue_label (products_issues db)) \<and>
    item (validate_products db) ''issues'' = Some (PList (products_issues db)) \<and>
    item (validate_products db) ''valid'' = Some (PBool (products_issues db = []))) \<and>
   (length (orders_issues db) \<le> 3 \<and> distinct (map issue_label (orders_issues db)) \<and>
    item (validate_orders db) ''issues'' = Some (PList (orders_issues db)) \<and>
    item (validate_orders db) ''valid'' = Some (PBool (orders_issues db = []))) \<and>
   (length (foreign_keys_issues db) \<le> 2 \<and>
    distinct (map issue_label (foreign_keys_issues db)) \<and>
    item (validate_foreign_keys db) ''issues'' = Some (PList (foreign_keys_issues db)) \<and>
    item (validate_foreign_keys db) ''valid'' = Some (PBool (foreign_keys_issues db = []))) \<and>
   (length (consistency_issues db) \<le> 2 \<and>
    distinct (map issue_label (consistency_issues db)) \<and>
    item (validate_data_consistency db) ''issues'' = Some (PList (consistency_issues db)) \<and>
    item (validate_data_consistency db) ''valid'' = Some (PBool (consistency_issues db = [])))"
  by (intro conjI issues_lengths issue_labels_distinct section_items)

theorem one_issue_per_rule_witness:
  "length (invalid_emails many_bad_db) = 3 \<and>
   length (customers_null_fields many_bad_db) = 2 \<and>
   length (customers_issues many_bad_db) = 3 \<and>
   distinct (map issue_label (customers_issues many_bad_db)) \<and>
   item (validate_customers many_bad_db) ''valid'' = Some (PBool False) \<and>
   item (validate_products many_bad_db) ''valid'' = Some (PBool True)"
proof -
  have "length (invalid_emails many_bad_db) = 3"
    "length (customers_null_fields many_bad_db) = 2"
    "length (customers_issues many_bad_db) = 3"
    "products_issues many_bad_db = []"
    by code_simp+
  with one_issue_per_rule [of many_bad_db] show ?thesis by auto
qed

section \<open>Duplicate primary keys\<close>

text \<open>
  Claim C2 on the code. Two customers share the id 7 and differ in everything else; names
  and emails are present, the emails are well formed and different. The customers section
  comes out valid with no issue: \<^verbatim>\<open>validate_customers\<close> groups by email only. The sibling
  \<^verbatim>\<open>validate_products\<close> does group by \<^verbatim>\<open>product_id\<close>, and two products with the id 101
  are reported.
\<close>

theorem duplicate_customer_id_not_reported:
  "validate_customers dup_customer_id_db =
     PDict [(''table'', PStr ''customers''), (''valid'', PBool True), (''issues'', PList [])] \<and>
   validate_products dup_product_id_db =
     PDict [(''table'', PStr ''products''), (''valid'', PBool False),
            (''issues'', PList [PFStr ''Duplicate product IDs: ''
                                  (PList [PTuple [PInt 101, PInt 2]]) ''''])]"
  by code_simp

section \<open>A valid dataset\<close>

lemma case_option_False:
  "(case x of Some v \<Rightarrow> P v | None \<Rightarrow> False) \<longleftrightarrow> (\<exists>v. x = Some v \<and> P v)"
  by (cases x) simp_all

lemma valid_dataset_iff:
  "valid_dataset db \<longleftrightarrow>
     distinct (map c_customer_id (customers db)) \<and>
     distinct (map p_product_id (products db)) \<and>
     distinct (map o_order_id (orders db)) \<and>
     (\<forall>c\<in>set (customers db). \<exists>s. c_email c = Some s \<and> at_then_dot (c_str s)) \<and>
     (\<forall>ord\<in>set (orders db).
         (\<exists>k. o_customer_id ord = Some k \<and> Some k \<in> set (map c_customer_id (customers db))) \<and>
         (\<exists>k. o_product_id ord = Some k \<and> Some k \<in> set (map p_product_id (products db)))) \<and>
     (\<forall>p\<in>set (products db).
         (\<exists>v. p_price p = Some v \<and> \<not> double_less v (Finite 0)) \<and>
         (\<exists>s. p_stock_quantity p = Some s \<and> 0 \<le> s)) \<and>
     (\<forall>ord\<in>set (orders db).
         (\<exists>u. o_unit_price ord = Some u \<and> \<not> double_less u (Finite 0)) \<and>
         (\<exists>q. o_quantity ord = Some q \<and> 0 < q))"
  unfolding valid_dataset_def list_all_iff case_option_False valid_email_cond ..

lemma valid_dataset_hard_sections:
  assumes "valid_dataset db" and "names_present db" and "emails_distinct db"
  shows "customers_issues db = []" and "products_issues db = []"
    and "orders_issues db = []" and "foreign_keys_issues db = []"
proof -
  note v = assms(1)[unfolded valid_dataset_iff]
  note n = assms(2)[unfolded names_present_def list_all_iff]
  from v have emails: "\<forall>c\<in>set (customers db). \<exists>s. c_email c = Some s \<and> at_then_dot (c_str s)"
    by blast
  from v have refs: "\<forall>ord\<in>set (orders db).
         (\<exists>k. o_customer_id ord = Some k \<and> Some k \<in> set (map c_customer_id (customers db))) \<and>
         (\<exists>k. o_product_id ord = Some k \<and> Some k \<in> set (map p_product_id (products db)))"
    by blast
  from v have prods: "\<forall>p\<in>set (products db).
         (\<exists>v. p_price p = Some v \<and> \<not> double_less v (Finite 0)) \<and>
         (\<exists>s. p_stock_quantity p = Some s \<and> 0 \<le> s)"
    by blast
  from v have ords: "\<forall>ord\<in>set (orders db).
         (\<exists>u. o_unit_price ord = Some u \<and> \<not> double_less u (Finite 0)) \<and>
         (\<exists>q. o_quantity ord = Some q \<and> 0 < q)"
    by blast
  from v have dp: "distinct (map p_product_id (products db))" by blast
  show "customers_issues db = []"
    unfolding issues_empty customers_queries_empty
    using emails n assms(3) by (fastforce simp: emails_distinct_def)
  show "products_issues db = []"
    unfolding issues_empty products_queries_empty
    using prods n dp by fastforce
  show "orders_issues db = []"
    unfolding issues_empty orders_queries_empty
    using ords refs by fastforce
  show "foreign_keys_issues db = []"
    unfolding issues_empty foreign_keys_queries_empty
    using refs by fastforce
qed

lemma section_without_issues:
  "customers_issues db = [] \<Longrightarrow> validate_customers db =
     PDict [(''table'', PStr ''customers''), (''valid'', PBool True), (''issues'', PList [])]"
  "products_issues db = [] \<Longrightarrow> validate_products db =
     PDict [(''table'', PStr ''products''), (''valid'', PBool True), (''issues'', PList [])]"
  "orders_issues db = [] \<Longrightarrow> validate_orders db =
     PDict [(''table'', PStr ''orders''), (''valid'', PBool True), (''issues'', PList [])]"
  "foreign_keys_issues db = [] \<Longrightarrow> validate_foreign_keys db =
     PDict [(''constraint'', PStr ''foreign_keys''), (''valid'', PBool True),
            (''issues'', PList [])]"
  "consistency_issues db = [] \<Longrightarrow> validate_data_consistency db =
     PDict [(''check'', PStr ''data_consistency''), (''valid'', PBool True),
            (''issues'', PList [])]"
  by (simp_all add: validate_customers_def validate_products_def validate_orders_def
      validate_foreign_keys_def validate_data_consistency_def)

lemma consistency_without_issues_iff:
  "validate_data_consistency db =
     PDict [(''check'', PStr ''data_consistency''), (''valid'', PBool True),
            (''issues'', PList [])] \<longleftrightarrow> consistency_issues db = []"
  by (auto simp: validate_data_consistency_def)

text \<open>
  Claim C8, as amended. Take a dataset that is valid in the sense of the specification
  and that, in addition, has the name columns present and no email twice. The run returns
  the report, its overall status is true, and the customers, products, orders and
  foreign-keys sections of the report are valid with no issue. The consistency section is
  valid with no issue exactly when for no order \<^verbatim>\<open>ABS(unit_price - price)\<close>, computed in
  double precision against the price of its product, is greater than the double nearest to
  0.01, and no order's quantity exceeds the stock of its product by more than 100. On
  three empty tables all five sections are valid with no issue and the overall status is
  true.
\<close>

theorem valid_dataset_passes:
  assumes "valid_dataset db" and "names_present db" and "emails_distinct db"
  shows "map_option returned (run_full_validation db) = Some (results db) \<and>
         all_valid (results db) = Some True \<and>
         item (results db) ''customers'' = Some (PDict [(''table'', PStr ''customers''),
            (''valid'', PBool True), (''issues'', PList [])]) \<and>
         item (results db) ''products'' = Some (PDict [(''table'', PStr ''products''),
            (''valid'', PBool True), (''issues'', PList [])]) \<and>
         item (results db) ''orders'' = Some (PDict [(''table'', PStr ''orders''),
            (''valid'', PBool True), (''issues'', PList [])]) \<and>
         item (results db) ''foreign_keys'' = Some (PDict [(''constraint'', PStr ''foreign_keys''),
            (''valid'', PBool True), (''issues'', PList [])]) \<and>
         (item (results db) ''consistency'' = Some (PDict [(''check'', PStr ''data_consistency''),
            (''valid'', PBool True), (''issues'', PList [])]) \<longleftrightarrow>
            (\<forall>ord\<in>set (orders db). \<forall>p\<in>set (products db). \<forall>k.
               o_product_id ord = Some k \<and> p_product_id p = Some k \<longrightarrow>
               (\<forall>u v. o_unit_price ord = Some u \<and> p_price p = Some v \<longrightarrow>
                  \<not> drift_over_tolerance u v) \<and>
               (\<forall>q s. o_quantity ord = Some q \<and> p_stock_quantity p = Some s \<longrightarrow>
                  q \<le> s + 100))) \<and>
         (results empty_db =
            PDict [(''customers'', PDict [(''table'', PStr ''customers''),
                      (''valid'', PBool True), (''issues'', PList [])]),
                   (''products'', PDict [(''table'', PStr ''products''),
                      (''valid'', PBool True), (''issues'', PList [])]),
                   (''orders'', PDict [(''table'', PStr ''orders''),
                      (''valid'', PBool True), (''issues'', PList [])]),
                   (''foreign_keys'', PDict [(''constraint'', PStr ''foreign_keys''),
                      (''valid'', PBool True), (''issues'', PList [])]),
                   (''consistency'', PDict [(''check'', PStr ''data_consistency''),
                      (''valid'', PBool True), (''issues'', PList [])])] \<and>
          all_valid (results empty_db) = Some True)"
proof -
  note hard = valid_dataset_hard_sections [OF assms]
  have run: "map_option returned (run_full_validation db) = Some (results db)"
    by (simp add: run_full_validation_eq)
  have overall: "all_valid (results db) = Some True"
    by (simp add: all_valid_results hard)
  have sections:
    "item (results db) ''customers'' = Some (PDict [(''table'', PStr ''customers''),
            (''valid'', PBool True), (''issues'', PList [])])"
    "item (results db) ''products'' = Some (PDict [(''table'', PStr ''products''),
            (''valid'', PBool True), (''issues'', PList [])])"
    "item (results db) ''orders'' = Some (PDict [(''table'', PStr ''orders''),
            (''valid'', PBool True), (''issues'', PList [])])"
    "item (results db) ''foreign_keys'' = Some (PDict [(''constraint'', PStr ''foreign_keys''),
            (''valid'', PBool True), (''issues'', PList [])])"
    by (simp_all add: results_items section_without_issues hard)
  have "item (results db) ''consistency'' = Some (PDict [(''check'', PStr ''data_consistency''),
            (''valid'', PBool True), (''issues'', PList [])]) \<longleftrightarrow> consistency_issues db = []"
    by (simp add: results_items consistency_without_issues_iff)
  also have "\<dots> \<longleftrightarrow>
            (\<forall>ord\<in>set (orders db). \<forall>p\<in>set (products db). \<forall>k.
               o_product_id ord = Some k \<and> p_product_id p = Some k \<longrightarrow>
               (\<forall>u v. o_unit_price ord = Some u \<and> p_price p = Some v \<longrightarrow>
                  \<not> drift_over_tolerance u v) \<and>
               (\<forall>q s. o_quantity ord = Some q \<and> p_stock_quantity p = Some s \<longrightarrow>
                  q \<le> s + 100))"
    unfolding issues_empty consistency_queries_empty drift_over_tolerance_iff by blast
  finally have advisory:
    "item (results db) ''consistency'' = Some (PDict [(''check'', PStr ''data_consistency''),
            (''valid'', PBool True), (''issues'', PList [])]) \<longleftrightarrow>
            (\<forall>ord\<in>set (orders db). \<forall>p\<in>set (products db). \<forall>k.
               o_product_id ord = Some k \<and> p_product_id p = Some k \<longrightarrow>
               (\<forall>u v. o_unit_price ord = Some u \<and> p_price p = Some v \<longrightarrow>
                  \<not> drift_over_tolerance u v) \<and>
               (\<forall>q s. o_quantity ord = Some q \<and> p_stock_quantity p = Some s \<longrightarrow>
                  q \<le> s + 100))" .
  have empty: "results empty_db =
            PDict [(''customers'', PDict [(''table'', PStr ''customers''),
                      (''valid'', PBool True), (''issues'', PList [])]),
                   (''products'', PDict [(''table'', PStr ''products''),
                      (''valid'', PBool True), (''issues'', PList [])]),
                   (''orders'', PDict [(''table'', PStr ''orders''),
                      (''valid'', PBool True), (''issues'', PList [])]),
                   (''foreign_keys'', PDict [(''constraint'', PStr ''foreign_keys''),
                      (''valid'', PBool True), (''issues'', PList [])]),
                   (''consistency'', PDict [(''check'', PStr ''data_consistency''),
                      (''valid'', PBool True), (''issues'', PList [])])] \<and>
          all_valid (results empty_db) = Some True"
  proof
    show "results empty_db =
            PDict [(''customers'', PDict [(''table'', PStr ''customers''),
                      (''valid'', PBool True), (''issues'', PList [])]),
                   (''products'', PDict [(''table'', PStr ''products''),
                      (''valid'', PBool True), (''issues'', PList [])]),
                   (''orders'', PDict [(''table'', PStr ''orders''),
                      (''valid'', PBool True), (''issues'', PList [])]),
                   (''foreign_keys'', PDict [(''constraint'', PStr ''foreign_keys''),
                      (''valid'', PBool True), (''issues'', PList [])]),
                   (''consistency'', PDict [(''check'', PStr ''data_consistency''),
                      (''valid'', PBool True), (''issues'', PList [])])]"
      by (simp add: results_def section_without_issues empty_db_issues)
    show "all_valid (results empty_db) = Some True"
      by (simp add: all_valid_results empty_db_issues)
  qed
  from run overall sections advisory empty show ?thesis by blast
qed

lemma sample_datasets_valid:
  "valid_dataset near_db" "names_present near_db" "emails_distinct near_db"
  "valid_dataset drift_db" "names_present drift_db" "emails_distinct drift_db"
  "valid_dataset null_name_db" "emails_distinct null_name_db"
  "valid_dataset dup_email_db" "names_present dup_email_db"
  by code_simp+

theorem valid_dataset_passes_witness:
  "valid_dataset near_db \<and> names_present near_db \<and> emails_distinct near_db \<and>
   all_valid (results near_db) = Some True \<and>
   item (results near_db) ''customers'' = Some (PDict [(''table'', PStr ''customers''),
      (''valid'', PBool True), (''issues'', PList [])]) \<and>
   item (results near_db) ''consistency'' = Some (PDict [(''check'', PStr ''data_consistency''),
      (''valid'', PBool True), (''issues'', PList [])])"
proof -
  have "consistency_issues near_db = []"
    by (rule near_db_issues)
  then have "item (results near_db) ''consistency'' =
      Some (PDict [(''check'', PStr ''data_consistency''),
        (''valid'', PBool True), (''issues'', PList [])])"
    by (simp add: results_items section_without_issues)
  with valid_dataset_passes [OF sample_datasets_valid(1-3)] sample_datasets_valid(1-3)
  show ?thesis by blast
qed

text \<open>
  Claim C8 as stated promises an empty issues list in every section of a valid dataset.
  Three datasets are valid in the sense of the specification and have an issue. In
  \<open>drift_db\<close> the order was sold at 100 and its product now costs 100.02: the consistency
  section holds an issue. In \<open>null_name_db\<close> the one customer has no first name, in
  \<open>dup_email_db\<close> two customers share an email: the customers section holds an issue and
  the overall status is false.
\<close>

theorem valid_dataset_with_issues:
  "(valid_dataset drift_db \<and> names_present drift_db \<and> emails_distinct drift_db \<and>
    validate_data_consistency drift_db =
      PDict [(''check'', PStr ''data_consistency''), (''valid'', PBool False),
             (''issues'', PList
                [PFStr ''Order prices differ from current product prices (may be expected): ''
                   (PInt 1) '' cases''])]) \<and>
   (valid_dataset null_name_db \<and> emails_distinct null_name_db \<and>
    validate_customers null_name_db =
      PDict [(''table'', PStr ''customers''), (''valid'', PBool False),
             (''issues'', PList
                [PFStr ''Customers with NULL required fields: ''
                   (PList [PTuple [PInt 1, PNone, PStr ''Lee'', PStr ''ann@x.org'']]) ''''])] \<and>
    all_valid (results null_name_db) = Some False) \<and>
   (valid_dataset dup_email_db \<and> names_present dup_email_db \<and>
    validate_customers dup_email_db =
      PDict [(''table'', PStr ''customers''), (''valid'', PBool False),
             (''issues'', PList
                [PFStr ''Duplicate email addresses: ''
                   (PList [PTuple [PStr ''office@x.org'', PInt 2]]) ''''])] \<and>
    all_valid (results dup_email_db) = Some False)"
proof -
  have "validate_data_consistency drift_db =
      PDict [(''check'', PStr ''data_consistency''), (''valid'', PBool False),
             (''issues'', PList
                [PFStr ''Order prices differ from current product prices (may be expected): ''
                   (PInt 1) '' cases''])]"
    by (simp add: validate_data_consistency_def drift_db_issues)
  moreover have "validate_customers null_name_db =
      PDict [(''table'', PStr ''customers''), (''valid'', PBool False),
             (''issues'', PList
                [PFStr ''Customers with NULL required fields: ''
                   (PList [PTuple [PInt 1, PNone, PStr ''Lee'', PStr ''ann@x.org'']]) ''''])]"
    by code_simp
  moreover have "validate_customers dup_email_db =
      PDict [(''table'', PStr ''customers''), (''valid'', PBool False),
             (''issues'', PList
                [PFStr ''Duplicate email addresses: ''
                   (PList [PTuple [PStr ''office@x.org'', PInt 2]]) ''''])]"
    by code_simp
  moreover have "all_valid (results null_name_db) = Some False"
    "all_valid (results dup_email_db) = Some False"
    by code_simp+
  ultimately show ?thesis
    using sample_datasets_valid by blast
qed

section \<open>What an issue is\<close>











end
